theory Spec2Isabelle
  imports Main "HOL-Library.Sublist"
begin

section \<open>JavaScript values used by the client\<close>

text \<open>
  Strings are lists of characters. \<open>toLowerCase\<close> maps the Latin capitals to their small
  letters and leaves every other character as it is. The theorems about name resolution
  never unfold \<open>toLowerCase\<close>: they hold for whatever case mapping stands behind it.
  \<open>s.includes(q)\<close> is the contiguous-sublist test, true for the empty \<open>q\<close>.
\<close>

definition lower_char :: "char \<Rightarrow> char" where
  "lower_char c =
     (case map_of (zip ''ABCDEFGHIJKLMNOPQRSTUVWXYZ'' ''abcdefghijklmnopqrstuvwxyz'') c of
        Some l \<Rightarrow> l
      | None \<Rightarrow> c)"

definition toLowerCase :: "string \<Rightarrow> string" where
  "toLowerCase s = map lower_char s"

definition str_includes :: "string \<Rightarrow> string \<Rightarrow> bool" where
  "str_includes s q = sublist q s"

fun join :: "string \<Rightarrow> string list \<Rightarrow> string" where
  "join sep [] = []"
| "join sep [x] = x"
| "join sep (x # y # ys) = x @ sep @ join sep (y # ys)"

definition digit_char :: "nat \<Rightarrow> char" where
  "digit_char d = ''0123456789'' ! d"

fun show_nat :: "nat \<Rightarrow> string" where
  "show_nat n =
     (if n < 10 then [digit_char n] else show_nat (n div 10) @ [digit_char (n mod 10)])"

declare show_nat.simps [simp del]

text \<open>
  An optional value is \<open>None\<close> when the JavaScript value is \<open>undefined\<close> or \<open>null\<close>.
  The conditions \<open>if (x)\<close>, \<open>!x\<close>, \<open>x ? a : b\<close> and \<open>x || d\<close> of the source test
  truthiness: a number passes when it is not \<open>0\<close>, a string when it is not empty.
  \<open>nonzero\<close> and \<open>nonempty\<close> return the value when it passes the test.
\<close>

fun nonzero :: "nat option \<Rightarrow> nat option" where
  "nonzero (Some (Suc n)) = Some (Suc n)"
| "nonzero _ = None"

fun nonempty :: "string option \<Rightarrow> string option" where
  "nonempty (Some (c # s)) = Some (c # s)"
| "nonempty _ = None"

text \<open>
  A priority reaches \<open>createTaskDetailed\<close> as text from the command line and goes
  through \<open>parseInt\<close>; \<open>ParseInt s\<close> stands for the number \<open>parseInt(s)\<close>.
\<close>

datatype js_num = Num int | ParseInt string

section \<open>Errors\<close>

text \<open>
  Every \<open>throw new Error(...)\<close> of the client is one constructor; \<open>message\<close> builds the
  text the source puts into the \<open>Error\<close>. \<open>TransportError\<close> is the error \<open>request\<close> throws
  for a response that is not ok, with its text (status and body).
\<close>

datatype error =
    TransportError string
  | BoardNotFound string
  | MultipleBoards "(string \<times> nat) list"
  | ColumnNotFound string string
  | UserNotFound string
  | TaskNotFound
  | TaskNotOnBoard
  | MoveColumnNotFound string

fun message :: "error \<Rightarrow> string" where
  \<open>message (TransportError text) = text\<close>
| \<open>message (BoardNotFound boardName) = ''Board "'' @ boardName @ ''" not found.''\<close>
| \<open>message (MultipleBoards matches) =
     ''Multiple boards found: ''
     @ join '', '' (map (\<lambda>(name, ident). ''"'' @ name @ ''" (ID: '' @ show_nat ident @ '')'') matches)
     @ ''. Please be more specific.''\<close>
| \<open>message (ColumnNotFound columnName boardName) =
     ''Column "'' @ columnName @ ''" not found on board "'' @ boardName @ ''".''\<close>
| \<open>message (UserNotFound assigneeName) = ''User "'' @ assigneeName @ ''" not found.''\<close>
| \<open>message TaskNotFound = ''Task not found''\<close>
| \<open>message TaskNotOnBoard = ''Task is not assigned to a board''\<close>
| \<open>message (MoveColumnNotFound columnName) =
     ''Column "'' @ columnName @ ''" not found on board.''\<close>

definition is_resolution_error :: "error \<Rightarrow> bool" where
  "is_resolution_error e =
     (case e of
        BoardNotFound _ \<Rightarrow> True
      | MultipleBoards _ \<Rightarrow> True
      | ColumnNotFound _ _ \<Rightarrow> True
      | UserNotFound _ \<Rightarrow> True
      | _ \<Rightarrow> False)"

section \<open>Remote entities\<close>

record project =
  pj_id :: nat
  pj_name :: string

record board =
  b_id :: nat
  b_name :: string
  b_projectId :: "nat option"
  b_projectName :: "string option"

record column =
  c_id :: nat
  c_name :: string
  c_boardId :: nat

record task =
  t_id :: "nat option"
  t_title :: string
  t_boardId :: "nat option"
  t_boardColumnId :: "nat option"
  t_parentId :: "nat option"

record member =
  m_id :: nat
  m_firstName :: "string option"
  m_lastName :: "string option"
  m_email :: string

record user =
  u_id :: nat
  u_name :: string
  u_email :: string
  u_raw :: member

text \<open>The result of \<open>getBoardWithContext\<close>: the board's own fields, its columns and tasks.\<close>

record board_context =
  ctx_board :: board
  columns :: "column list"
  tasks :: "task list"

section \<open>Task creation data and requests\<close>

text \<open>
  \<open>task_data\<close> is the object given to \<open>createTask\<close>; a field is \<open>None\<close> when the key is
  absent or undefined (\<open>JSON.stringify\<close> drops both). \<open>payload\<close> is the body sent:
  \<open>{ type: 'action', ...data }\<close> plus \<open>locations\<close> when a board is given.
\<close>

record task_data =
  d_type :: "string option"
  d_title :: string
  d_description :: "string option"
  d_priority :: "js_num option"
  d_projectId :: "nat option"
  d_boardId :: "nat option"
  d_boardColumnId :: "nat option"
  d_assignees :: "nat list option"
  d_parentId :: "nat option"

record location =
  l_projectId :: nat
  l_boardId :: nat
  l_boardColumnId :: "nat option"

record payload =
  p_type :: string
  p_data :: task_data
  p_locations :: "location list option"

text \<open>
  The mutating requests the client issues: \<open>POST tm/tasks\<close> with its body, and
  \<open>POST tm/tasks/{taskId}/board-column\<close> with the \<open>boardColumnId\<close> of its body.
\<close>

datatype mutation =
    CreateTask payload
  | MoveTask nat nat

section \<open>The remote service\<close>

text \<open>
  The remote service is a parameter of every operation. A read (GET) is answered from a
  snapshot: each field gives the outcome of one endpoint, \<open>Inl\<close> the text of a response
  that is not ok and \<open>Inr\<close> the named field of the response envelope (\<open>None\<close> when the
  response lacks it).
  No operation of the client reads after it has written, so the snapshot is the state the
  reads see. The answer to a mutating request may depend on the mutating requests issued
  before it, which the client passes along as its log. \<open>tasks_first\<close> says which of the two
  concurrent reads of \<open>getBoardWithContext\<close> settles first when both fail.
\<close>

record remote =
  projects_resp :: "string + project list option"
  boards_resp :: "nat \<Rightarrow> string + board list option"
  columns_resp :: "nat \<Rightarrow> string + column list option"
  tasks_resp :: "nat \<Rightarrow> string + task list option"
  task_resp :: "nat \<Rightarrow> string + task option"
  members_resp :: "string + member list option"
  tasks_first :: bool
  create_resp :: "mutation list \<Rightarrow> payload \<Rightarrow> string + task"
  move_resp :: "mutation list \<Rightarrow> nat \<Rightarrow> nat \<Rightarrow> string + string"

definition request :: "string + 'a \<Rightarrow> error + 'a" where
  \<comment> \<open>\<open>request\<close> throws for a response that is not ok and returns the body otherwise\<close>
  "request response =
     (case response of
        Inl text \<Rightarrow> Inl (TransportError text)
      | Inr body \<Rightarrow> Inr body)"

definition or_empty :: "'a list option \<Rightarrow> 'a list" where
  \<comment> \<open>\<open>data.field || []\<close>\<close>
  "or_empty d = (case d of None \<Rightarrow> [] | Some xs \<Rightarrow> xs)"

section \<open>Projects and boards\<close>

definition getProjects :: "remote \<Rightarrow> error + project list" where
  "getProjects r =
     (case request (projects_resp r) of
        Inl e \<Rightarrow> Inl e
      | Inr data \<Rightarrow> Inr (or_empty data))"

text \<open>
  \<open>getBoards(projectId)\<close> calls itself for every project when \<open>projectId\<close> is not truthy,
  and a project whose id is \<open>0\<close> sends that call down the same branch again. The first
  argument bounds the depth of these calls; \<open>None\<close> means the call has not returned
  within it. \<open>Promise.all\<close> returns when every branch has returned (\<open>those\<close>), with the
  results in the order of the projects; a branch that throws gives \<open>[]\<close>.
\<close>

fun getBoards :: "nat \<Rightarrow> remote \<Rightarrow> nat option \<Rightarrow> (error + board list) option" where
  "getBoards 0 r projectId = None"
| "getBoards (Suc fuel) r projectId =
     (case nonzero projectId of
        Some pid \<Rightarrow>
          (case request (boards_resp r pid) of
             Inl e \<Rightarrow> Some (Inl e)
           | Inr data \<Rightarrow> Some (Inr (or_empty data)))
      | None \<Rightarrow>
          (case getProjects r of
             Inl e \<Rightarrow> Some (Inl e)
           | Inr projects \<Rightarrow>
               map_option (\<lambda>results. Inr (concat results))
                 (those (map (\<lambda>p.
                    map_option (\<lambda>res.
                        case res of
                          Inr boards \<Rightarrow> map (\<lambda>b. b\<lparr>b_projectName := Some (pj_name p)\<rparr>) boards
                        | Inl e \<Rightarrow> [])
                      (getBoards fuel r (Some (pj_id p))))
                  projects))))"

definition findBoard :: "nat \<Rightarrow> remote \<Rightarrow> string \<Rightarrow> (error + board list) option" where
  "findBoard fuel r query =
     (case getBoards fuel r None of
        None \<Rightarrow> None
      | Some (Inl e) \<Rightarrow> Some (Inl e)
      | Some (Inr boards) \<Rightarrow>
          (let queryLower = toLowerCase query in
           case find (\<lambda>b. toLowerCase (b_name b) = queryLower) boards of
             Some exact \<Rightarrow> Some (Inr [exact])
           | None \<Rightarrow>
               Some (Inr (filter (\<lambda>b. str_includes (toLowerCase (b_name b)) queryLower) boards))))"

definition getColumns :: "remote \<Rightarrow> nat \<Rightarrow> error + column list" where
  "getColumns r boardId =
     (case request (columns_resp r boardId) of
        Inl e \<Rightarrow> Inl e
      | Inr data \<Rightarrow> Inr (or_empty data))"

definition findColumn :: "remote \<Rightarrow> nat \<Rightarrow> string \<Rightarrow> error + column option" where
  "findColumn r boardId query =
     (case getColumns r boardId of
        Inl e \<Rightarrow> Inl e
      | Inr cols \<Rightarrow>
          (let queryLower = toLowerCase query in
           Inr (find (\<lambda>c. str_includes (toLowerCase (c_name c)) queryLower) cols)))"

definition getTasks :: "remote \<Rightarrow> nat \<Rightarrow> error + task list" where
  \<comment> \<open>\<open>getTasks({ boardId })\<close>, the only filter the client uses\<close>
  "getTasks r boardId =
     (case request (tasks_resp r boardId) of
        Inl e \<Rightarrow> Inl e
      | Inr data \<Rightarrow> Inr (or_empty data))"

definition getTask :: "remote \<Rightarrow> nat \<Rightarrow> error + task option" where
  \<comment> \<open>\<open>res.task || res\<close>; \<open>None\<close> is a falsy result\<close>
  "getTask r taskId = request (task_resp r taskId)"

definition getBoardWithContext :: "nat \<Rightarrow> remote \<Rightarrow> string \<Rightarrow> (error + board_context) option" where
  "getBoardWithContext fuel r boardName =
     (case findBoard fuel r boardName of
        None \<Rightarrow> None
      | Some (Inl e) \<Rightarrow> Some (Inl e)
      | Some (Inr matches) \<Rightarrow>
          (case matches of
             [] \<Rightarrow> Some (Inl (BoardNotFound boardName))
           | [board] \<Rightarrow>
               (case (getColumns r (b_id board), getTasks r (b_id board)) of
                  (Inr cols, Inr ts) \<Rightarrow>
                    Some (Inr \<lparr>ctx_board = board, columns = cols, tasks = ts\<rparr>)
                | (Inl e, Inr ts) \<Rightarrow> Some (Inl e)
                | (Inr cols, Inl e) \<Rightarrow> Some (Inl e)
                | (Inl e1, Inl e2) \<Rightarrow> Some (Inl (if tasks_first r then e2 else e1)))
           | _ \<Rightarrow> Some (Inl (MultipleBoards (map (\<lambda>m. (b_name m, b_id m)) matches)))))"

section \<open>Users\<close>

definition getUsers :: "remote \<Rightarrow> error + user list" where
  "getUsers r =
     (case request (members_resp r) of
        Inl e \<Rightarrow> Inl e
      | Inr data \<Rightarrow>
          Inr (map (\<lambda>u.
                 \<lparr>u_id = m_id u,
                  u_name =
                    (let joined = join '' '' (List.map_filter nonempty [m_firstName u, m_lastName u])
                     in if joined = [] then m_email u else joined),
                  u_email = m_email u,
                  u_raw = u\<rparr>)
               (or_empty data)))"

definition findUser :: "remote \<Rightarrow> string \<Rightarrow> error + user option" where
  "findUser r query =
     (case getUsers r of
        Inl e \<Rightarrow> Inl e
      | Inr users \<Rightarrow>
          (let queryLower = toLowerCase query in
           Inr (find (\<lambda>u. str_includes (toLowerCase (u_name u)) queryLower
                          \<or> str_includes (toLowerCase (u_email u)) queryLower) users)))"

section \<open>Creating tasks\<close>

definition task_payload :: "task_data \<Rightarrow> payload" where
  \<comment> \<open>the \<open>payload\<close> object \<open>createTask\<close> builds from \<open>data\<close>\<close>
  "task_payload data =
     \<lparr>p_type = (case d_type data of None \<Rightarrow> ''action'' | Some t \<Rightarrow> t),
      p_data = data,
      p_locations =
        (case nonzero (d_boardId data) of
           None \<Rightarrow> None
         | Some boardId \<Rightarrow>
             Some [\<lparr>l_projectId = (case d_projectId data of None \<Rightarrow> 0 | Some projectId \<Rightarrow> projectId),
                    l_boardId = boardId,
                    l_boardColumnId = d_boardColumnId data\<rparr>])\<rparr>"

text \<open>
  An operation that writes takes the log of the mutating requests issued so far and
  returns its outcome with the log extended by the requests it has issued, in order.
\<close>

definition createTask :: "remote \<Rightarrow> task_data \<Rightarrow> mutation list \<Rightarrow> (error + task) \<times> mutation list" where
  "createTask r data log =
     (let payload = task_payload data
      in (request (create_resp r log payload), log @ [CreateTask payload]))"

record create_args =
  a_title :: string
  a_boardName :: "string option"
  a_columnName :: "string option"
  a_assigneeName :: "string option"
  a_priority :: "string option"
  a_description :: "string option"
  a_subtasks :: "string list"

text \<open>
  \<open>createTaskDetailed\<close> in its four parts: the block \<open>if (boardName)\<close>, which sets
  \<open>boardId\<close>, \<open>projectId\<close> and \<open>boardColumnId\<close> (returned in this order); the block
  \<open>if (assigneeName)\<close>, which sets \<open>assigneeId\<close>; the creation of the main task; and
  the loop over the subtask titles.
\<close>

definition resolve_board ::
  "nat \<Rightarrow> remote \<Rightarrow> string option \<Rightarrow> string option
     \<Rightarrow> (error + nat option \<times> nat option \<times> nat option) option" where
  "resolve_board fuel r boardName columnName =
     (case nonempty boardName of
        None \<Rightarrow> Some (Inr (None, None, None))
      | Some bn \<Rightarrow>
          (case getBoardWithContext fuel r bn of
             None \<Rightarrow> None
           | Some (Inl e) \<Rightarrow> Some (Inl e)
           | Some (Inr board) \<Rightarrow>
               (case nonempty columnName of
                  Some cn \<Rightarrow>
                    (case find (\<lambda>c. str_includes (toLowerCase (c_name c)) (toLowerCase cn))
                            (columns board) of
                       None \<Rightarrow> Some (Inl (ColumnNotFound cn bn))
                     | Some col \<Rightarrow>
                         Some (Inr (Some (b_id (ctx_board board)),
                                    b_projectId (ctx_board board),
                                    Some (c_id col))))
                | None \<Rightarrow>
                    Some (Inr (Some (b_id (ctx_board board)),
                               b_projectId (ctx_board board),
                               (case columns board of
                                  [] \<Rightarrow> None
                                | col # _ \<Rightarrow> Some (c_id col)))))))"

definition resolve_assignee :: "remote \<Rightarrow> string option \<Rightarrow> error + nat option" where
  "resolve_assignee r assigneeName =
     (case nonempty assigneeName of
        None \<Rightarrow> Inr None
      | Some an \<Rightarrow>
          (case findUser r an of
             Inl e \<Rightarrow> Inl e
           | Inr None \<Rightarrow> Inl (UserNotFound an)
           | Inr (Some user) \<Rightarrow> Inr (Some (u_id user))))"

definition assignees_of :: "nat option \<Rightarrow> nat list" where
  \<comment> \<open>\<open>assigneeId ? [assigneeId] : []\<close>\<close>
  "assignees_of assigneeId = (case nonzero assigneeId of None \<Rightarrow> [] | Some a \<Rightarrow> [a])"

definition main_data ::
  "create_args \<Rightarrow> nat option \<Rightarrow> nat option \<Rightarrow> nat option \<Rightarrow> nat option \<Rightarrow> task_data" where
  "main_data a boardId projectId boardColumnId assigneeId =
     \<lparr>d_type = None,
      d_title = a_title a,
      d_description = Some (case nonempty (a_description a) of None \<Rightarrow> [] | Some d \<Rightarrow> d),
      d_priority = Some (case a_priority a of None \<Rightarrow> Num 0 | Some p \<Rightarrow> ParseInt p),
      d_projectId = projectId,
      d_boardId = boardId,
      d_boardColumnId = boardColumnId,
      d_assignees = Some (assignees_of assigneeId),
      d_parentId = None\<rparr>"

definition subtask_data ::
  "nat option \<Rightarrow> nat option \<Rightarrow> nat option \<Rightarrow> nat option \<Rightarrow> nat option \<Rightarrow> string \<Rightarrow> task_data" where
  "subtask_data mainTaskId boardId projectId boardColumnId assigneeId stTitle =
     \<lparr>d_type = None,
      d_title = stTitle,
      d_description = None,
      d_priority = None,
      d_projectId = projectId,
      d_boardId = boardId,
      d_boardColumnId = boardColumnId,
      d_assignees = Some (assignees_of assigneeId),
      d_parentId = mainTaskId\<rparr>"

fun create_subtasks ::
  "remote \<Rightarrow> (string \<Rightarrow> task_data) \<Rightarrow> string list \<Rightarrow> mutation list
     \<Rightarrow> (error + unit) \<times> mutation list" where
  "create_subtasks r mk [] log = (Inr (), log)"
| "create_subtasks r mk (stTitle # rest) log =
     (case createTask r (mk stTitle) log of
        (Inl e, log1) \<Rightarrow> (Inl e, log1)
      | (Inr created, log1) \<Rightarrow> create_subtasks r mk rest log1)"

definition createTaskDetailed ::
  "nat \<Rightarrow> remote \<Rightarrow> create_args \<Rightarrow> mutation list \<Rightarrow> ((error + task) \<times> mutation list) option" where
  "createTaskDetailed fuel r a log =
     (case resolve_board fuel r (a_boardName a) (a_columnName a) of
        None \<Rightarrow> None
      | Some (Inl e) \<Rightarrow> Some (Inl e, log)
      | Some (Inr (boardId, projectId, boardColumnId)) \<Rightarrow>
          (case resolve_assignee r (a_assigneeName a) of
             Inl e \<Rightarrow> Some (Inl e, log)
           | Inr assigneeId \<Rightarrow>
               (case createTask r (main_data a boardId projectId boardColumnId assigneeId) log of
                  (Inl e, log1) \<Rightarrow> Some (Inl e, log1)
                | (Inr mainTask, log1) \<Rightarrow>
                    (case create_subtasks r
                            (subtask_data (t_id mainTask) boardId projectId boardColumnId assigneeId)
                            (a_subtasks a) log1 of
                       (Inl e, log2) \<Rightarrow> Some (Inl e, log2)
                     | (Inr done, log2) \<Rightarrow> Some (Inr mainTask, log2)))))"

section \<open>Moving a task\<close>

definition moveTask :: "remote \<Rightarrow> nat \<Rightarrow> nat \<Rightarrow> mutation list \<Rightarrow> (error + string) \<times> mutation list" where
  "moveTask r taskId boardColumnId log =
     (request (move_resp r log taskId boardColumnId), log @ [MoveTask taskId boardColumnId])"

definition moveTaskToColumn ::
  "remote \<Rightarrow> nat \<Rightarrow> string \<Rightarrow> mutation list \<Rightarrow> (error + string) \<times> mutation list" where
  "moveTaskToColumn r taskId columnName log =
     (case getTask r taskId of
        Inl e \<Rightarrow> (Inl e, log)
      | Inr None \<Rightarrow> (Inl TaskNotFound, log)
      | Inr (Some task) \<Rightarrow>
          (case nonzero (t_boardId task) of
             None \<Rightarrow> (Inl TaskNotOnBoard, log)
           | Some boardId \<Rightarrow>
               (case findColumn r boardId columnName of
                  Inl e \<Rightarrow> (Inl e, log)
                | Inr None \<Rightarrow> (Inl (MoveColumnNotFound columnName), log)
                | Inr (Some col) \<Rightarrow> moveTask r taskId (c_id col) log)))"

section \<open>Requests of the subtask loop\<close>

text \<open>
  The creation requests for a list of subtask titles, in the order of the titles; \<open>mk\<close> builds
  the data of the subtask with a given title.
\<close>

definition subtask_requests :: "(string \<Rightarrow> task_data) \<Rightarrow> string list \<Rightarrow> mutation list" where
  "subtask_requests mk ts = map (\<lambda>t. CreateTask (task_payload (mk t))) ts"

section \<open>A workspace for concrete runs\<close>

text \<open>
  Three projects; the boards request of the second one fails. Board 10 has three columns,
  board 11 has a column named like one of them, board 32 has none. The remote refuses to
  create a task titled \<open>Broken\<close> and numbers the tasks it creates from 1000 on.
\<close>

definition demo_board :: "nat \<Rightarrow> string \<Rightarrow> nat \<Rightarrow> board" where
  "demo_board i n pid = \<lparr>b_id = i, b_name = n, b_projectId = Some pid, b_projectName = None\<rparr>"

definition demo_column :: "nat \<Rightarrow> string \<Rightarrow> nat \<Rightarrow> column" where
  "demo_column i n bid = \<lparr>c_id = i, c_name = n, c_boardId = bid\<rparr>"

definition demo_task :: "nat \<Rightarrow> string \<Rightarrow> nat option \<Rightarrow> task" where
  "demo_task i t bid =
     \<lparr>t_id = Some i, t_title = t, t_boardId = bid, t_boardColumnId = None, t_parentId = None\<rparr>"

definition demo_created :: "mutation list \<Rightarrow> payload \<Rightarrow> task" where
  "demo_created log p =
     \<lparr>t_id = Some (1000 + length log),
      t_title = d_title (p_data p),
      t_boardId = d_boardId (p_data p),
      t_boardColumnId = d_boardColumnId (p_data p),
      t_parentId = d_parentId (p_data p)\<rparr>"

definition demo_remote :: remote where
  "demo_remote =
     \<lparr>projects_resp =
        Inr (Some [\<lparr>pj_id = 1, pj_name = ''Web''\<rparr>,
                   \<lparr>pj_id = 2, pj_name = ''Ops''\<rparr>,
                   \<lparr>pj_id = 3, pj_name = ''Lab''\<rparr>]),
      boards_resp = (\<lambda>pid.
        if pid = 1 then
          Inr (Some [demo_board 10 ''Release 2.0'' 1, demo_board 11 ''Sprint'' 1,
                     demo_board 12 ''Release'' 1])
        else if pid = 2 then Inl ''500 Internal Server Error: ''
        else if pid = 3 then
          Inr (Some [demo_board 30 ''Sprint Release'' 3, demo_board 31 ''SPRINT'' 3,
                     demo_board 32 ''Empty'' 3])
        else Inr None),
      columns_resp = (\<lambda>bid.
        if bid = 10 then
          Inr (Some [demo_column 100 ''Backlog'' 10, demo_column 101 ''In Progress'' 10,
                     demo_column 102 ''Done'' 10])
        else if bid = 11 then
          Inr (Some [demo_column 110 ''Done'' 11])
        else Inr (Some [])),
      tasks_resp = (\<lambda>bid. Inr (Some [])),
      task_resp = (\<lambda>tid.
        if tid = 500 then Inr (Some (demo_task 500 ''Write notes'' (Some 11)))
        else if tid = 501 then Inr (Some (demo_task 501 ''Loose'' None))
        else if tid = 502 then Inr (Some (demo_task 502 ''Stuck'' (Some 32)))
        else Inl ''404 Not Found: ''),
      members_resp =
        Inr (Some [\<lparr>m_id = 1, m_firstName = Some ''Ann'', m_lastName = Some ''Lee'',
                    m_email = ''lee@example.org''\<rparr>,
                   \<lparr>m_id = 2, m_firstName = Some ''Ann'', m_lastName = None,
                    m_email = ''ann@example.org''\<rparr>]),
      tasks_first = False,
      create_resp = (\<lambda>log p.
        if d_title (p_data p) = ''Broken'' then Inl ''500 Internal Server Error: ''
        else Inr (demo_created log p)),
      move_resp = (\<lambda>log tid cid. Inr ''{}'')\<rparr>"

definition demo_args :: create_args where
  "demo_args =
     \<lparr>a_title = ''T'', a_boardName = None, a_columnName = None, a_assigneeName = None,
      a_priority = None, a_description = None, a_subtasks = []\<rparr>"

text \<open>A workspace whose only project has the id \<open>0\<close>.\<close>

definition zero_remote :: remote where
  "zero_remote = demo_remote\<lparr>projects_resp := Inr (Some [\<lparr>pj_id = 0, pj_name = ''Nil''\<rparr>])\<rparr>"

text \<open>The boards of the workspace as \<open>getBoards\<close> aggregates them.\<close>

definition demo_boards :: "board list" where
  "demo_boards =
     [(demo_board 10 ''Release 2.0'' 1)\<lparr>b_projectName := Some ''Web''\<rparr>,
      (demo_board 11 ''Sprint'' 1)\<lparr>b_projectName := Some ''Web''\<rparr>,
      (demo_board 12 ''Release'' 1)\<lparr>b_projectName := Some ''Web''\<rparr>,
      (demo_board 30 ''Sprint Release'' 3)\<lparr>b_projectName := Some ''Lab''\<rparr>,
      (demo_board 31 ''SPRINT'' 3)\<lparr>b_projectName := Some ''Lab''\<rparr>,
      (demo_board 32 ''Empty'' 3)\<lparr>b_projectName := Some ''Lab''\<rparr>]"

text \<open>The users that \<open>getUsers\<close> builds from the members of the workspace.\<close>

definition demo_users :: "user list" where
  "demo_users =
     [\<lparr>u_id = 1, u_name = ''Ann Lee'', u_email = ''lee@example.org'',
       u_raw = \<lparr>m_id = 1, m_firstName = Some ''Ann'', m_lastName = Some ''Lee'',
                 m_email = ''lee@example.org''\<rparr>\<rparr>,
      \<lparr>u_id = 2, u_name = ''Ann'', u_email = ''ann@example.org'',
       u_raw = \<lparr>m_id = 2, m_firstName = Some ''Ann'', m_lastName = None,
                 m_email = ''ann@example.org''\<rparr>\<rparr>]"

text \<open>
  A creation on board 10, found by a part of its name, in its column \<open>Backlog\<close>, with two
  subtasks: the arguments, the payload of the main request and of a subtask request, and
  the board with its context. The board named \<open>Empty\<close> has no column.
\<close>

definition release_args :: create_args where
  "release_args =
     demo_args\<lparr>a_boardName := Some ''Release 2'', a_columnName := Some ''backlog'',
               a_subtasks := [''A'', ''B'']\<rparr>"

definition release_main :: payload where
  "release_main = task_payload (main_data release_args (Some 10) (Some 1) (Some 100) None)"

definition release_sub :: "string \<Rightarrow> payload" where
  "release_sub t = task_payload (subtask_data (Some 1000) (Some 10) (Some 1) (Some 100) None t)"

definition release_context :: board_context where
  "release_context =
     \<lparr>ctx_board = (demo_board 10 ''Release 2.0'' 1)\<lparr>b_projectName := Some ''Web''\<rparr>,
      columns = [demo_column 100 ''Backlog'' 10, demo_column 101 ''In Progress'' 10,
                 demo_column 102 ''Done'' 10],
      tasks = []\<rparr>"

definition empty_context :: board_context where
  "empty_context =
     \<lparr>ctx_board = (demo_board 32 ''Empty'' 3)\<lparr>b_projectName := Some ''Lab''\<rparr>,
      columns = [], tasks = []\<rparr>"

section \<open>Auxiliary facts\<close>

subsection \<open>Lists\<close>

lemma find_filter: "find P xs = (case filter P xs of [] \<Rightarrow> None | x # _ \<Rightarrow> Some x)"
  by (induction xs) auto

lemma find_Some_member: "find P xs = Some x \<Longrightarrow> x \<in> set xs \<and> P x"
  by (induction xs) (auto split: if_splits)

lemma those_map_Some: "those (map (\<lambda>x. Some (f x)) xs) = Some (map f xs)"
  by (induction xs) simp_all

lemma join_includes: "x \<in> set xs \<Longrightarrow> sublist x (join sep xs)"
proof (induction sep xs rule: join.induct)
  case (1 sep)
  then show ?case by simp
next
  case (2 sep y)
  then show ?case by simp
next
  case (3 sep y z zs)
  show ?case
  proof (cases "x = y")
    case True
    then show ?thesis by simp
  next
    case False
    with 3 have "sublist x (join sep (z # zs))" by simp
    then show ?thesis
      by (metis append.assoc join.simps(3) sublist_append_leftI sublist_order.order.trans)
  qed
qed

subsection \<open>Reads\<close>

lemma getBoards_scoped:
  "n \<noteq> 0 \<Longrightarrow> getBoards (Suc fuel) r (Some n) =
     Some (case boards_resp r n of Inl text \<Rightarrow> Inl (TransportError text) | Inr data \<Rightarrow> Inr (or_empty data))"
  by (cases n) (simp_all add: request_def split: sum.splits)

text \<open>
  A project whose id is \<open>0\<close> sends the call of \<open>getBoards\<close> for it down the branch
  without a project again, where the same project is listed again: within no bound does
  the call without a project return.
\<close>

lemma getBoards_zero_id:
  "getProjects r = Inr ps \<Longrightarrow> p \<in> set ps \<Longrightarrow> pj_id p = 0 \<Longrightarrow> projectId = None \<or> projectId = Some 0
     \<Longrightarrow> getBoards fuel r projectId = None"
proof (induction fuel arbitrary: projectId)
  case 0
  then show ?case by simp
next
  case (Suc fuel)
  have nz: "nonzero projectId = None" using Suc.prems(4) by auto
  have inner: "getBoards fuel r (Some (pj_id p)) = None"
    using Suc.IH[OF Suc.prems(1,2,3)] Suc.prems(3) by simp
  obtain xs ys where ps: "ps = xs @ p # ys"
    using Suc.prems(2) by (meson split_list)
  have "those (map (\<lambda>p.
                    map_option (\<lambda>res.
                        case res of
                          Inr boards \<Rightarrow> map (\<lambda>b. b\<lparr>b_projectName := Some (pj_name p)\<rparr>) boards
                        | Inl e \<Rightarrow> [])
                      (getBoards fuel r (Some (pj_id p)))) ps) = None"
    unfolding ps using inner by (induction xs) (simp_all split: option.splits)
  then show ?case
    using nz Suc.prems(1) by simp
qed

lemma getBoards_zero_remote: "getBoards fuel zero_remote None = None"
proof (rule getBoards_zero_id)
  show "getProjects zero_remote = Inr [\<lparr>pj_id = 0, pj_name = ''Nil''\<rparr>]"
    by (simp add: zero_remote_def getProjects_def request_def or_empty_def)
  show "\<lparr>pj_id = 0, pj_name = ''Nil''\<rparr> \<in> set [\<lparr>pj_id = 0, pj_name = ''Nil''\<rparr>]"
    by simp
  show "pj_id \<lparr>pj_id = 0, pj_name = ''Nil''\<rparr> = 0"
    by simp
  show "None = None \<or> None = Some (0::nat)"
    by simp
qed

lemma getColumns_error: "getColumns r b = Inl e \<Longrightarrow> \<exists>text. e = TransportError text"
  by (auto simp: getColumns_def request_def split: sum.splits)

lemma getTasks_error: "getTasks r b = Inl e \<Longrightarrow> \<exists>text. e = TransportError text"
  by (auto simp: getTasks_def request_def split: sum.splits)

lemma getBoardWithContext_result:
  assumes "getBoardWithContext fuel r bn = Some (Inr board)"
  shows "findBoard fuel r bn = Some (Inr [ctx_board board])"
    and "getColumns r (b_id (ctx_board board)) = Inr (columns board)"
    and "getTasks r (b_id (ctx_board board)) = Inr (tasks board)"
  using assms
  by (auto simp: getBoardWithContext_def split: option.splits sum.splits list.splits)

lemma getBoardWithContext_ambiguous:
  assumes "getBoards fuel r None = Some (Inr C)"
    and "filter (\<lambda>b. toLowerCase (b_name b) = toLowerCase bn) C = []"
    and "2 \<le> length (filter (\<lambda>b. str_includes (toLowerCase (b_name b)) (toLowerCase bn)) C)"
  shows "getBoardWithContext fuel r bn =
           Some (Inl (MultipleBoards
                   (map (\<lambda>m. (b_name m, b_id m))
                      (filter (\<lambda>b. str_includes (toLowerCase (b_name b)) (toLowerCase bn)) C))))"
proof -
  let ?ms = "filter (\<lambda>b. str_includes (toLowerCase (b_name b)) (toLowerCase bn)) C"
  have fb: "findBoard fuel r bn = Some (Inr ?ms)"
    using assms(1,2) by (simp add: findBoard_def find_filter)
  obtain m1 m2 rest where "?ms = m1 # m2 # rest"
    using assms(3) by (cases ?ms; cases "tl ?ms") auto
  then show ?thesis
    using fb by (simp add: getBoardWithContext_def)
qed

lemma getBoardWithContext_not_found:
  assumes "getBoards fuel r None = Some (Inr C)"
    and "\<forall>b \<in> set C. \<not> str_includes (toLowerCase (b_name b)) (toLowerCase bn)"
  shows "getBoardWithContext fuel r bn = Some (Inl (BoardNotFound bn))"
proof -
  have "\<forall>b \<in> set C. toLowerCase (b_name b) \<noteq> toLowerCase bn"
    using assms(2) by (metis str_includes_def sublist_order.order.refl)
  then have "filter (\<lambda>b. toLowerCase (b_name b) = toLowerCase bn) C = []"
    by (simp add: filter_empty_conv)
  moreover have "filter (\<lambda>b. str_includes (toLowerCase (b_name b)) (toLowerCase bn)) C = []"
    using assms(2) by (simp add: filter_empty_conv)
  ultimately have "findBoard fuel r bn = Some (Inr [])"
    using assms(1) by (simp add: findBoard_def find_filter)
  then show ?thesis
    by (simp add: getBoardWithContext_def)
qed

lemma message_enumerates:
  assumes "m \<in> set ms"
  shows \<open>str_includes (message (MultipleBoards (map (\<lambda>m. (b_name m, b_id m)) ms)))
           (''"'' @ b_name m @ ''" (ID: '' @ show_nat (b_id m) @ '')'')\<close>
proof -
  let ?entry = \<open>\<lambda>(name, ident). ''"'' @ name @ ''" (ID: '' @ show_nat ident @ '')''\<close>
  have "?entry (b_name m, b_id m) \<in> set (map ?entry (map (\<lambda>m. (b_name m, b_id m)) ms))"
    using assms by force
  from join_includes [OF this, of "'', ''"]
  have "sublist (?entry (b_name m, b_id m))
          (''Multiple boards found: ''
             @ join '', '' (map ?entry (map (\<lambda>m. (b_name m, b_id m)) ms))
             @ ''. Please be more specific.'')"
    by (meson sublist_append_leftI sublist_append_rightI sublist_order.order.trans)
  then show ?thesis
    by (simp add: str_includes_def)
qed

subsection \<open>Writes\<close>

lemma createTask_eq:
  "createTask r d log = (request (create_resp r log (task_payload d)), log @ [CreateTask (task_payload d)])"
  by (simp add: createTask_def Let_def)

lemma createTask_error:
  "createTask r d log = (Inl e, log') \<Longrightarrow> \<exists>text. e = TransportError text"
  by (auto simp: createTask_eq request_def split: sum.splits)

lemma create_subtasks_error:
  "create_subtasks r mk ts log = (Inl e, log') \<Longrightarrow> \<exists>text. e = TransportError text"
proof (induction ts arbitrary: log)
  case Nil
  then show ?case by simp
next
  case (Cons t ts)
  then show ?case
    by (auto split: prod.splits sum.splits dest: createTask_error)
qed

lemma create_subtasks_log:
  "\<exists>more. snd (create_subtasks r mk ts log) = log @ more"
proof (induction ts arbitrary: log)
  case Nil
  then show ?case by simp
next
  case (Cons t ts)
  show ?case
  proof (cases "request (create_resp r log (task_payload (mk t)))")
    case (Inl e)
    then show ?thesis by (simp add: createTask_eq)
  next
    case (Inr created)
    from Cons.IH [of "log @ [CreateTask (task_payload (mk t))]"] Inr
    show ?thesis by (auto simp: createTask_eq)
  qed
qed

lemma create_subtasks_ok:
  "create_subtasks r mk ts log = (Inr u, log') \<Longrightarrow>
     log' = log @ subtask_requests mk ts
     \<and> (\<forall>i<length ts. \<exists>t. create_resp r (log @ subtask_requests mk (take i ts))
                               (task_payload (mk (ts ! i))) = Inr t)"
proof (induction ts arbitrary: log)
  case Nil
  then show ?case by (simp add: subtask_requests_def)
next
  case (Cons a ts)
  from Cons.prems obtain t where
    t: "create_resp r log (task_payload (mk a)) = Inr t"
    and rest: "create_subtasks r mk ts (log @ [CreateTask (task_payload (mk a))]) = (Inr u, log')"
    by (auto simp: createTask_def request_def Let_def split: sum.splits prod.splits)
  from Cons.IH[OF rest] have
    l: "log' = (log @ [CreateTask (task_payload (mk a))]) @ subtask_requests mk ts"
    and ok: "\<forall>i<length ts. \<exists>t. create_resp r ((log @ [CreateTask (task_payload (mk a))]) @ subtask_requests mk (take i ts))
                               (task_payload (mk (ts ! i))) = Inr t"
    by blast+
  show ?case
  proof (intro conjI allI impI)
    show "log' = log @ subtask_requests mk (a # ts)"
      using l by (simp add: subtask_requests_def)
  next
    fix i assume "i < length (a # ts)"
    then show "\<exists>t. create_resp r (log @ subtask_requests mk (take i (a # ts)))
                               (task_payload (mk ((a # ts) ! i))) = Inr t"
      using t ok by (cases i) (auto simp: subtask_requests_def)
  qed
qed

lemma create_subtasks_succeeds:
  "\<forall>i<length ts. \<exists>t. create_resp r (log @ subtask_requests mk (take i ts))
                            (task_payload (mk (ts ! i))) = Inr t \<Longrightarrow>
   create_subtasks r mk ts log = (Inr (), log @ subtask_requests mk ts)"
proof (induction ts arbitrary: log)
  case Nil
  then show ?case by (simp add: subtask_requests_def)
next
  case (Cons a ts)
  from Cons.prems have "\<exists>t. create_resp r (log @ subtask_requests mk (take 0 (a # ts)))
                            (task_payload (mk ((a # ts) ! 0))) = Inr t"
    by blast
  then obtain t where t: "create_resp r log (task_payload (mk a)) = Inr t"
    by (auto simp: subtask_requests_def)
  have rest: "\<forall>i<length ts. \<exists>t. create_resp r ((log @ [CreateTask (task_payload (mk a))])
                                    @ subtask_requests mk (take i ts))
                            (task_payload (mk (ts ! i))) = Inr t"
  proof (intro allI impI)
    fix i assume "i < length ts"
    then have "Suc i < length (a # ts)" by simp
    with Cons.prems have "\<exists>t. create_resp r (log @ subtask_requests mk (take (Suc i) (a # ts)))
                            (task_payload (mk ((a # ts) ! Suc i))) = Inr t"
      by blast
    then show "\<exists>t. create_resp r ((log @ [CreateTask (task_payload (mk a))])
                                    @ subtask_requests mk (take i ts))
                            (task_payload (mk (ts ! i))) = Inr t"
      by (simp add: subtask_requests_def)
  qed
  from Cons.IH [OF rest] t show ?case
    by (simp add: createTask_eq request_def subtask_requests_def)
qed

lemma create_subtasks_fails:
  "k < length ts \<Longrightarrow>
   \<forall>i<k. \<exists>t. create_resp r (log @ subtask_requests mk (take i ts)) (task_payload (mk (ts ! i))) = Inr t \<Longrightarrow>
   create_resp r (log @ subtask_requests mk (take k ts)) (task_payload (mk (ts ! k))) = Inl text \<Longrightarrow>
   create_subtasks r mk ts log = (Inl (TransportError text), log @ subtask_requests mk (take (Suc k) ts))"
proof (induction ts arbitrary: log k)
  case Nil
  then show ?case by simp
next
  case (Cons a ts)
  show ?case
  proof (cases k)
    case 0
    then show ?thesis
      using Cons.prems(3) by (simp add: createTask_def request_def subtask_requests_def)
  next
    case (Suc j)
    from Cons.prems(2) Suc obtain t where
      t: "create_resp r log (task_payload (mk a)) = Inr t"
      by (force simp: subtask_requests_def)
    have j: "j < length ts" using Cons.prems(1) Suc by simp
    have before: "\<forall>i<j. \<exists>t. create_resp r ((log @ [CreateTask (task_payload (mk a))]) @ subtask_requests mk (take i ts))
                     (task_payload (mk (ts ! i))) = Inr t"
    proof (intro allI impI)
      fix i assume "i < j"
      then have "Suc i < k" using Suc by simp
      with Cons.prems(2) show "\<exists>t. create_resp r ((log @ [CreateTask (task_payload (mk a))]) @ subtask_requests mk (take i ts))
                     (task_payload (mk (ts ! i))) = Inr t"
        by (force simp: subtask_requests_def)
    qed
    have fails: "create_resp r ((log @ [CreateTask (task_payload (mk a))]) @ subtask_requests mk (take j ts))
                     (task_payload (mk (ts ! j))) = Inl text"
      using Cons.prems(3) Suc by (simp add: subtask_requests_def)
    from Cons.IH[OF j before fails] show ?thesis
      using t Suc by (simp add: createTask_def request_def subtask_requests_def)
  qed
qed

lemma createTaskDetailed_after_resolution:
  assumes "resolve_board fuel r (a_boardName a) (a_columnName a) = Some (Inr (bid, pid, cid))"
    and "resolve_assignee r (a_assigneeName a) = Inr aid"
  shows "\<exists>res more. createTaskDetailed fuel r a log =
           Some (res, log @ CreateTask (task_payload (main_data a bid pid cid aid)) # more)"
proof (cases "request (create_resp r log (task_payload (main_data a bid pid cid aid)))")
  case (Inl e)
  then show ?thesis
    using assms by (simp add: createTaskDetailed_def createTask_eq)
next
  case (Inr mainTask)
  obtain res log2 where sub:
    "create_subtasks r (subtask_data (t_id mainTask) bid pid cid aid) (a_subtasks a)
       (log @ [CreateTask (task_payload (main_data a bid pid cid aid))]) = (res, log2)"
    by (cases "create_subtasks r (subtask_data (t_id mainTask) bid pid cid aid) (a_subtasks a)
       (log @ [CreateTask (task_payload (main_data a bid pid cid aid))])") blast
  from create_subtasks_log [of r "subtask_data (t_id mainTask) bid pid cid aid" "a_subtasks a"
       "log @ [CreateTask (task_payload (main_data a bid pid cid aid))]"] sub
  obtain more where "log2 = log @ CreateTask (task_payload (main_data a bid pid cid aid)) # more"
    by auto
  then show ?thesis
    using assms Inr sub by (cases res) (simp_all add: createTaskDetailed_def createTask_eq)
qed

lemma createTaskDetailed_resolution_error:
  assumes "createTaskDetailed fuel r a log = Some (Inl e, log')" and "is_resolution_error e"
  shows "log' = log"
proof -
  have no: "\<And>text. e \<noteq> TransportError text"
    using assms(2) by (auto simp: is_resolution_error_def)
  show ?thesis
    using assms(1) no
    by (auto simp: createTaskDetailed_def split: option.splits sum.splits prod.splits
             dest: createTask_error create_subtasks_error)
qed

section \<open>Partial failure of the subtask loop (C1)\<close>

text \<open>
  Claim C1 says that when the main task is created and a later subtask creation fails,
  \<open>createTaskDetailed\<close> still reports the main task together with the subtask titles
  that succeeded and those that failed, and goes on with the remaining subtasks.
  The source awaits every creation inside a plain \<open>for\<close> loop, without \<open>try\<close>: in the
  workspace below the main task is created (the remote answers with task 1000), the
  creation of the first subtask \<open>Broken\<close> fails, and the call ends with that error alone;
  no request for \<open>Later\<close> is issued.
\<close>

theorem createTaskDetailed_partial_failure_counterexample:
  "create_resp demo_remote []
     (task_payload (main_data (demo_args\<lparr>a_subtasks := [''Broken'', ''Later'']\<rparr>) None None None None))
   = Inr (demo_created []
     (task_payload (main_data (demo_args\<lparr>a_subtasks := [''Broken'', ''Later'']\<rparr>) None None None None)))
   \<and> createTaskDetailed 2 demo_remote (demo_args\<lparr>a_subtasks := [''Broken'', ''Later'']\<rparr>) []
     = Some (Inl (TransportError ''500 Internal Server Error: ''),
             [CreateTask (task_payload (main_data (demo_args\<lparr>a_subtasks := [''Broken'', ''Later'']\<rparr>)
                            None None None None)),
              CreateTask (task_payload (subtask_data (Some 1000) None None None None ''Broken''))])"
  by code_simp

text \<open>
  C1 as amended: when the board and the assignee are resolved, the main task is created,
  the subtask creations before position \<open>k\<close> succeed and the one at position \<open>k\<close> fails,
  \<open>createTaskDetailed\<close> fails with the error of that creation. The requests issued are
  the one for the main task and those for the subtasks up to position \<open>k\<close>, in order;
  the subtasks after position \<open>k\<close> are not attempted, nothing is undone, and the
  outcome holds neither the main task nor a report for each subtask.
\<close>

theorem createTaskDetailed_first_subtask_failure:
  assumes rb: "resolve_board fuel r (a_boardName a) (a_columnName a) = Some (Inr (bid, pid, cid))"
    and ra: "resolve_assignee r (a_assigneeName a) = Inr aid"
    and main: "create_resp r log (task_payload (main_data a bid pid cid aid)) = Inr mainTask"
    and k: "k < length (a_subtasks a)"
    and before: "\<forall>i<k. \<exists>t.
           create_resp r
             (log @ CreateTask (task_payload (main_data a bid pid cid aid))
                  # subtask_requests (subtask_data (t_id mainTask) bid pid cid aid) (take i (a_subtasks a)))
             (task_payload (subtask_data (t_id mainTask) bid pid cid aid (a_subtasks a ! i))) = Inr t"
    and fails: "create_resp r
             (log @ CreateTask (task_payload (main_data a bid pid cid aid))
                  # subtask_requests (subtask_data (t_id mainTask) bid pid cid aid) (take k (a_subtasks a)))
             (task_payload (subtask_data (t_id mainTask) bid pid cid aid (a_subtasks a ! k))) = Inl text"
  shows "createTaskDetailed fuel r a log =
           Some (Inl (TransportError text),
                 log @ CreateTask (task_payload (main_data a bid pid cid aid))
                     # subtask_requests (subtask_data (t_id mainTask) bid pid cid aid)
                         (take (Suc k) (a_subtasks a)))"
proof -
  let ?log1 = "log @ [CreateTask (task_payload (main_data a bid pid cid aid))]"
  let ?mk = "subtask_data (t_id mainTask) bid pid cid aid"
  have "create_subtasks r ?mk (a_subtasks a) ?log1
          = (Inl (TransportError text), ?log1 @ subtask_requests ?mk (take (Suc k) (a_subtasks a)))"
    using before fails by (intro create_subtasks_fails [OF k]) simp_all
  then show ?thesis
    using rb ra main by (simp add: createTaskDetailed_def createTask_eq request_def)
qed

theorem createTaskDetailed_first_subtask_failure_witness:
  "createTaskDetailed 2 demo_remote (demo_args\<lparr>a_subtasks := [''First'', ''Broken'', ''Later'']\<rparr>) []
     = Some (Inl (TransportError ''500 Internal Server Error: ''),
             [CreateTask (task_payload (main_data (demo_args\<lparr>a_subtasks := [''First'', ''Broken'', ''Later'']\<rparr>)
                            None None None None)),
              CreateTask (task_payload (subtask_data (Some 1000) None None None None ''First'')),
              CreateTask (task_payload (subtask_data (Some 1000) None None None None ''Broken''))])"
proof -
  let ?a = "demo_args\<lparr>a_subtasks := [''First'', ''Broken'', ''Later'']\<rparr>"
  let ?main = "task_payload (main_data ?a None None None None)"
  let ?mainTask = "demo_created [] ?main"
  let ?mk = "subtask_data (t_id ?mainTask) None None None None"
  have rb: "resolve_board 2 demo_remote (a_boardName ?a) (a_columnName ?a) = Some (Inr (None, None, None))"
    by code_simp
  have ra: "resolve_assignee demo_remote (a_assigneeName ?a) = Inr None"
    by code_simp
  have main: "create_resp demo_remote [] ?main = Inr ?mainTask"
    by code_simp
  have k: "Suc 0 < length (a_subtasks ?a)"
    by (simp add: demo_args_def)
  have first: "create_resp demo_remote
             ([] @ CreateTask ?main # subtask_requests ?mk (take 0 (a_subtasks ?a)))
             (task_payload (?mk (a_subtasks ?a ! 0)))
           = Inr (demo_created [CreateTask ?main] (task_payload (?mk ''First'')))"
    by code_simp
  have before: "\<forall>i<Suc 0. \<exists>t. create_resp demo_remote
             ([] @ CreateTask ?main # subtask_requests ?mk (take i (a_subtasks ?a)))
             (task_payload (?mk (a_subtasks ?a ! i))) = Inr t"
    using first by simp
  have fails: "create_resp demo_remote
             ([] @ CreateTask ?main # subtask_requests ?mk (take (Suc 0) (a_subtasks ?a)))
             (task_payload (?mk (a_subtasks ?a ! Suc 0))) = Inl ''500 Internal Server Error: ''"
    by code_simp
  have issued: "[] @ CreateTask ?main # subtask_requests ?mk (take (Suc (Suc 0)) (a_subtasks ?a))
      = [CreateTask ?main,
         CreateTask (task_payload (subtask_data (Some 1000) None None None None ''First'')),
         CreateTask (task_payload (subtask_data (Some 1000) None None None None ''Broken''))]"
    by code_simp
  from createTaskDetailed_first_subtask_failure [OF rb ra main k before fails]
  show ?thesis
    unfolding issued .
qed

section \<open>Resolution of the assignee (C2)\<close>

text \<open>
  Claim C2 says that the assignee is resolved with an exact match on the name taking
  precedence over substring matches, and that several substring matches are reported as
  ambiguous. \<open>findUser\<close> returns the first user whose name or email contains the query:
  in the workspace the members are \<open>Ann Lee\<close> (id 1) and \<open>Ann\<close> (id 2), and the query
  \<open>ann\<close> assigns the task to user 1, although user 2 matches exactly and two users match.
\<close>

theorem createTaskDetailed_assignee_counterexample:
  "map_sum id (map u_name) (getUsers demo_remote) = Inr [''Ann Lee'', ''Ann'']
   \<and> map_sum id (map u_id) (getUsers demo_remote) = Inr [1, 2]
   \<and> createTaskDetailed 2 demo_remote (demo_args\<lparr>a_assigneeName := Some ''ann''\<rparr>) []
     = Some (Inr (demo_created []
                    (task_payload (main_data (demo_args\<lparr>a_assigneeName := Some ''ann''\<rparr>)
                       None None None (Some 1)))),
             [CreateTask (task_payload (main_data (demo_args\<lparr>a_assigneeName := Some ''ann''\<rparr>)
                       None None None (Some 1)))])
   \<and> d_assignees (main_data (demo_args\<lparr>a_assigneeName := Some ''ann''\<rparr>) None None None (Some 1))
     = Some [1]"
  by code_simp

text \<open>
  C2 as amended: with an assignee name given, the assignee is the first user, in the order
  of the members listing, whose name or email contains the name, compared in lower case;
  an exact match has no precedence and several matches are not reported. The creation of
  the main task carries that user's id as its only assignee (no assignee when the id is
  \<open>0\<close>). Only when no user matches does the operation abort, with the user-not-found
  error and before any request is issued.
\<close>

theorem createTaskDetailed_assignee_first_match:
  assumes rb: "resolve_board fuel r (a_boardName a) (a_columnName a) = Some (Inr (bid, pid, cid))"
    and an: "nonempty (a_assigneeName a) = Some an"
    and users: "getUsers r = Inr users"
  shows "(filter (\<lambda>u. str_includes (toLowerCase (u_name u)) (toLowerCase an)
                      \<or> str_includes (toLowerCase (u_email u)) (toLowerCase an)) users = []
            \<longrightarrow> createTaskDetailed fuel r a log = Some (Inl (UserNotFound an), log))
       \<and> (\<forall>u rest.
            filter (\<lambda>u. str_includes (toLowerCase (u_name u)) (toLowerCase an)
                      \<or> str_includes (toLowerCase (u_email u)) (toLowerCase an)) users = u # rest
            \<longrightarrow> (\<exists>res main more.
                   createTaskDetailed fuel r a log = Some (res, log @ CreateTask main # more)
                 \<and> d_assignees (p_data main) = Some (if u_id u = 0 then [] else [u_id u])))"
proof (intro conjI allI impI)
  assume "filter (\<lambda>u. str_includes (toLowerCase (u_name u)) (toLowerCase an)
                      \<or> str_includes (toLowerCase (u_email u)) (toLowerCase an)) users = []"
  then have "resolve_assignee r (a_assigneeName a) = Inl (UserNotFound an)"
    using an users by (simp add: resolve_assignee_def findUser_def find_filter)
  then show "createTaskDetailed fuel r a log = Some (Inl (UserNotFound an), log)"
    using rb by (simp add: createTaskDetailed_def)
next
  fix u rest
  assume "filter (\<lambda>u. str_includes (toLowerCase (u_name u)) (toLowerCase an)
                      \<or> str_includes (toLowerCase (u_email u)) (toLowerCase an)) users = u # rest"
  then have ra: "resolve_assignee r (a_assigneeName a) = Inr (Some (u_id u))"
    using an users by (simp add: resolve_assignee_def findUser_def find_filter)
  have "d_assignees (p_data (task_payload (main_data a bid pid cid (Some (u_id u)))))
          = Some (if u_id u = 0 then [] else [u_id u])"
    by (cases "u_id u") (simp_all add: task_payload_def main_data_def assignees_of_def)
  with createTaskDetailed_after_resolution [OF rb ra, of log]
  show "\<exists>res main more.
                   createTaskDetailed fuel r a log = Some (res, log @ CreateTask main # more)
                 \<and> d_assignees (p_data main) = Some (if u_id u = 0 then [] else [u_id u])"
    by blast
qed

theorem createTaskDetailed_assignee_first_match_witness:
  "getUsers demo_remote = Inr demo_users
   \<and> createTaskDetailed 2 demo_remote (demo_args\<lparr>a_assigneeName := Some ''zed''\<rparr>) []
       = Some (Inl (UserNotFound ''zed''), [])
   \<and> (\<exists>res main more.
         createTaskDetailed 2 demo_remote (demo_args\<lparr>a_assigneeName := Some ''EXAMPLE''\<rparr>) []
           = Some (res, [] @ CreateTask main # more)
       \<and> d_assignees (p_data main) = Some [1])"
proof -
  let ?none = "demo_args\<lparr>a_assigneeName := Some ''zed''\<rparr>"
  let ?both = "demo_args\<lparr>a_assigneeName := Some ''EXAMPLE''\<rparr>"
  have users: "getUsers demo_remote = Inr demo_users"
    by code_simp
  have rb1: "resolve_board 2 demo_remote (a_boardName ?none) (a_columnName ?none)
               = Some (Inr (None, None, None))"
    by code_simp
  have an1: "nonempty (a_assigneeName ?none) = Some ''zed''"
    by code_simp
  have no_match: "filter (\<lambda>u. str_includes (toLowerCase (u_name u)) (toLowerCase ''zed'')
                      \<or> str_includes (toLowerCase (u_email u)) (toLowerCase ''zed'')) demo_users = []"
    by code_simp
  have first: "createTaskDetailed 2 demo_remote ?none [] = Some (Inl (UserNotFound ''zed''), [])"
    using createTaskDetailed_assignee_first_match [OF rb1 an1 users, of "[]"] no_match by blast
  have rb2: "resolve_board 2 demo_remote (a_boardName ?both) (a_columnName ?both)
               = Some (Inr (None, None, None))"
    by code_simp
  have an2: "nonempty (a_assigneeName ?both) = Some ''EXAMPLE''"
    by code_simp
  have two: "filter (\<lambda>u. str_includes (toLowerCase (u_name u)) (toLowerCase ''EXAMPLE'')
                      \<or> str_includes (toLowerCase (u_email u)) (toLowerCase ''EXAMPLE'')) demo_users
               = hd demo_users # tl demo_users"
    by code_simp
  have uid: "u_id (hd demo_users) = 1"
    by code_simp
  from createTaskDetailed_assignee_first_match [OF rb2 an2 users, of "[]"] two
  have "\<exists>res main more.
         createTaskDetailed 2 demo_remote ?both [] = Some (res, [] @ CreateTask main # more)
       \<and> d_assignees (p_data main)
           = Some (if u_id (hd demo_users) = 0 then [] else [u_id (hd demo_users)])"
    by blast
  then have second: "\<exists>res main more.
         createTaskDetailed 2 demo_remote ?both [] = Some (res, [] @ CreateTask main # more)
       \<and> d_assignees (p_data main) = Some [1]"
    unfolding uid by simp
  show ?thesis
    by (intro conjI users first second)
qed

section \<open>Resolution of a board name (C3)\<close>

text \<open>
  Claim C3: let \<open>C\<close> be the boards that \<open>getBoards\<close> aggregates. If exactly one board of
  \<open>C\<close> has a name equal to the query in lower case, \<open>findBoard\<close> returns that board
  alone, whatever other boards contain the query. If no board matches exactly and at least
  two contain the query, it returns all boards that contain it, in the order of \<open>C\<close>. If no
  board contains the query, it returns the empty list.
\<close>

theorem findBoard_resolution:
  assumes "getBoards fuel r None = Some (Inr C)"
  shows "(filter (\<lambda>b. toLowerCase (b_name b) = toLowerCase q) C = [b]
            \<longrightarrow> findBoard fuel r q = Some (Inr [b]))
       \<and> (filter (\<lambda>b. toLowerCase (b_name b) = toLowerCase q) C = []
            \<and> 2 \<le> length (filter (\<lambda>b. str_includes (toLowerCase (b_name b)) (toLowerCase q)) C)
            \<longrightarrow> findBoard fuel r q
                = Some (Inr (filter (\<lambda>b. str_includes (toLowerCase (b_name b)) (toLowerCase q)) C)))
       \<and> ((\<forall>b \<in> set C. \<not> str_includes (toLowerCase (b_name b)) (toLowerCase q))
            \<longrightarrow> findBoard fuel r q = Some (Inr []))"
proof (intro conjI impI)
  assume "filter (\<lambda>b. toLowerCase (b_name b) = toLowerCase q) C = [b]"
  then show "findBoard fuel r q = Some (Inr [b])"
    using assms by (simp add: findBoard_def find_filter)
next
  assume "filter (\<lambda>b. toLowerCase (b_name b) = toLowerCase q) C = []
            \<and> 2 \<le> length (filter (\<lambda>b. str_includes (toLowerCase (b_name b)) (toLowerCase q)) C)"
  then show "findBoard fuel r q
                = Some (Inr (filter (\<lambda>b. str_includes (toLowerCase (b_name b)) (toLowerCase q)) C))"
    using assms by (simp add: findBoard_def find_filter)
next
  assume none: "\<forall>b \<in> set C. \<not> str_includes (toLowerCase (b_name b)) (toLowerCase q)"
  have "\<forall>b \<in> set C. toLowerCase (b_name b) \<noteq> toLowerCase q"
    using none by (metis str_includes_def sublist_order.order.refl)
  then have "filter (\<lambda>b. toLowerCase (b_name b) = toLowerCase q) C = []"
    by (simp add: filter_empty_conv)
  moreover have "filter (\<lambda>b. str_includes (toLowerCase (b_name b)) (toLowerCase q)) C = []"
    using none by (simp add: filter_empty_conv)
  ultimately show "findBoard fuel r q = Some (Inr [])"
    using assms by (simp add: findBoard_def find_filter)
qed

theorem findBoard_resolution_witness:
  "getBoards 2 demo_remote None = Some (Inr demo_boards)
   \<and> findBoard 2 demo_remote ''release''
       = Some (Inr [(demo_board 12 ''Release'' 1)\<lparr>b_projectName := Some ''Web''\<rparr>])
   \<and> findBoard 2 demo_remote ''rel''
       = Some (Inr [(demo_board 10 ''Release 2.0'' 1)\<lparr>b_projectName := Some ''Web''\<rparr>,
                    (demo_board 12 ''Release'' 1)\<lparr>b_projectName := Some ''Web''\<rparr>,
                    (demo_board 30 ''Sprint Release'' 3)\<lparr>b_projectName := Some ''Lab''\<rparr>])
   \<and> findBoard 2 demo_remote ''zzz'' = Some (Inr [])"
proof -
  have g: "getBoards 2 demo_remote None = Some (Inr demo_boards)"
    by code_simp
  have one: "filter (\<lambda>b. toLowerCase (b_name b) = toLowerCase ''release'') demo_boards
               = [(demo_board 12 ''Release'' 1)\<lparr>b_projectName := Some ''Web''\<rparr>]"
    by code_simp
  have no_exact: "filter (\<lambda>b. toLowerCase (b_name b) = toLowerCase ''rel'') demo_boards = []"
    by code_simp
  have many: "filter (\<lambda>b. str_includes (toLowerCase (b_name b)) (toLowerCase ''rel'')) demo_boards
               = [(demo_board 10 ''Release 2.0'' 1)\<lparr>b_projectName := Some ''Web''\<rparr>,
                  (demo_board 12 ''Release'' 1)\<lparr>b_projectName := Some ''Web''\<rparr>,
                  (demo_board 30 ''Sprint Release'' 3)\<lparr>b_projectName := Some ''Lab''\<rparr>]"
    by code_simp
  have none: "\<forall>b \<in> set demo_boards. \<not> str_includes (toLowerCase (b_name b)) (toLowerCase ''zzz'')"
    by code_simp
  have a: "findBoard 2 demo_remote ''release''
             = Some (Inr [(demo_board 12 ''Release'' 1)\<lparr>b_projectName := Some ''Web''\<rparr>])"
    using findBoard_resolution [OF g, of "''release''"] one by blast
  have b: "findBoard 2 demo_remote ''rel''
       = Some (Inr [(demo_board 10 ''Release 2.0'' 1)\<lparr>b_projectName := Some ''Web''\<rparr>,
                    (demo_board 12 ''Release'' 1)\<lparr>b_projectName := Some ''Web''\<rparr>,
                    (demo_board 30 ''Sprint Release'' 3)\<lparr>b_projectName := Some ''Lab''\<rparr>])"
    using findBoard_resolution [OF g, of "''rel''"] no_exact many by simp
  have c: "findBoard 2 demo_remote ''zzz'' = Some (Inr [])"
    using findBoard_resolution [OF g, of "''zzz''"] none by blast
  show ?thesis
    by (intro conjI g a b c)
qed

section \<open>No mutation after a failed resolution (C4)\<close>

text \<open>
  Claim C4: when the resolution of the board name, the column name or the assignee name
  fails, \<open>createTaskDetailed\<close> aborts before any mutating request: the log of requests
  is the one it started with. This holds for every outcome that is one of the four
  resolution errors, and each failed resolution gives its error: a board name that no
  board contains, a board name that is no board's exact name and that two or more boards
  contain, a column name that no column of the board contains, an assignee name that no
  user matches. The error for an ambiguous board name lists every matching board with its
  name and id, and so does its message.
\<close>

theorem createTaskDetailed_aborts_before_mutation:
  \<open>(\<forall>e log'. createTaskDetailed fuel r a log = Some (Inl e, log') \<and> is_resolution_error e
        \<longrightarrow> log' = log)
 \<and> (\<forall>bn C. nonempty (a_boardName a) = Some bn \<and> getBoards fuel r None = Some (Inr C)
        \<and> filter (\<lambda>b. toLowerCase (b_name b) = toLowerCase bn) C = []
        \<and> 2 \<le> length (filter (\<lambda>b. str_includes (toLowerCase (b_name b)) (toLowerCase bn)) C)
        \<longrightarrow> createTaskDetailed fuel r a log =
              Some (Inl (MultipleBoards
                      (map (\<lambda>m. (b_name m, b_id m))
                         (filter (\<lambda>b. str_includes (toLowerCase (b_name b)) (toLowerCase bn)) C))),
                    log))
 \<and> (\<forall>bn C. nonempty (a_boardName a) = Some bn \<and> getBoards fuel r None = Some (Inr C)
        \<and> (\<forall>b \<in> set C. \<not> str_includes (toLowerCase (b_name b)) (toLowerCase bn))
        \<longrightarrow> createTaskDetailed fuel r a log = Some (Inl (BoardNotFound bn), log))
 \<and> (\<forall>bn cn board. nonempty (a_boardName a) = Some bn \<and> nonempty (a_columnName a) = Some cn
        \<and> getBoardWithContext fuel r bn = Some (Inr board)
        \<and> (\<forall>c \<in> set (columns board). \<not> str_includes (toLowerCase (c_name c)) (toLowerCase cn))
        \<longrightarrow> createTaskDetailed fuel r a log = Some (Inl (ColumnNotFound cn bn), log))
 \<and> (\<forall>ids an. resolve_board fuel r (a_boardName a) (a_columnName a) = Some (Inr ids)
        \<and> nonempty (a_assigneeName a) = Some an \<and> findUser r an = Inr None
        \<longrightarrow> createTaskDetailed fuel r a log = Some (Inl (UserNotFound an), log))
 \<and> (\<forall>ms. \<forall>m \<in> set ms.
        str_includes (message (MultipleBoards (map (\<lambda>m. (b_name m, b_id m)) ms)))
          (''"'' @ b_name m @ ''" (ID: '' @ show_nat (b_id m) @ '')''))\<close>
proof (intro conjI allI impI ballI)
  fix e log'
  assume "createTaskDetailed fuel r a log = Some (Inl e, log') \<and> is_resolution_error e"
  then show "log' = log"
    using createTaskDetailed_resolution_error by blast
next
  fix bn C
  assume h: "nonempty (a_boardName a) = Some bn \<and> getBoards fuel r None = Some (Inr C)
        \<and> filter (\<lambda>b. toLowerCase (b_name b) = toLowerCase bn) C = []
        \<and> 2 \<le> length (filter (\<lambda>b. str_includes (toLowerCase (b_name b)) (toLowerCase bn)) C)"
  then have "getBoardWithContext fuel r bn =
           Some (Inl (MultipleBoards
                   (map (\<lambda>m. (b_name m, b_id m))
                      (filter (\<lambda>b. str_includes (toLowerCase (b_name b)) (toLowerCase bn)) C))))"
    by (intro getBoardWithContext_ambiguous) simp_all
  then show "createTaskDetailed fuel r a log =
              Some (Inl (MultipleBoards
                      (map (\<lambda>m. (b_name m, b_id m))
                         (filter (\<lambda>b. str_includes (toLowerCase (b_name b)) (toLowerCase bn)) C))),
                    log)"
    using h by (simp add: createTaskDetailed_def resolve_board_def)
next
  fix bn C
  assume h: "nonempty (a_boardName a) = Some bn \<and> getBoards fuel r None = Some (Inr C)
        \<and> (\<forall>b \<in> set C. \<not> str_includes (toLowerCase (b_name b)) (toLowerCase bn))"
  then have "getBoardWithContext fuel r bn = Some (Inl (BoardNotFound bn))"
    by (intro getBoardWithContext_not_found [of fuel r C]) simp_all
  then show "createTaskDetailed fuel r a log = Some (Inl (BoardNotFound bn), log)"
    using h by (simp add: createTaskDetailed_def resolve_board_def)
next
  fix bn cn board
  assume h: "nonempty (a_boardName a) = Some bn \<and> nonempty (a_columnName a) = Some cn
        \<and> getBoardWithContext fuel r bn = Some (Inr board)
        \<and> (\<forall>c \<in> set (columns board). \<not> str_includes (toLowerCase (c_name c)) (toLowerCase cn))"
  then have "find (\<lambda>c. str_includes (toLowerCase (c_name c)) (toLowerCase cn)) (columns board) = None"
    by (simp add: find_None_iff)
  then show "createTaskDetailed fuel r a log = Some (Inl (ColumnNotFound cn bn), log)"
    using h by (simp add: createTaskDetailed_def resolve_board_def)
next
  fix ids an
  assume h: "resolve_board fuel r (a_boardName a) (a_columnName a) = Some (Inr ids)
        \<and> nonempty (a_assigneeName a) = Some an \<and> findUser r an = Inr None"
  then show "createTaskDetailed fuel r a log = Some (Inl (UserNotFound an), log)"
    by (cases ids) (simp add: createTaskDetailed_def resolve_assignee_def)
next
  fix ms :: "'z board_scheme list" and m
  assume "m \<in> set ms"
  then show \<open>str_includes (message (MultipleBoards (map (\<lambda>m. (b_name m, b_id m)) ms)))
          (''"'' @ b_name m @ ''" (ID: '' @ show_nat (b_id m) @ '')'')\<close>
    by (rule message_enumerates)
qed

theorem createTaskDetailed_aborts_before_mutation_witness:
  \<open>createTaskDetailed 2 demo_remote (demo_args\<lparr>a_boardName := Some ''rel''\<rparr>) []
     = Some (Inl (MultipleBoards [(''Release 2.0'', 10), (''Release'', 12), (''Sprint Release'', 30)]), [])
   \<and> createTaskDetailed 2 demo_remote (demo_args\<lparr>a_boardName := Some ''zzz''\<rparr>) []
     = Some (Inl (BoardNotFound ''zzz''), [])
   \<and> createTaskDetailed 2 demo_remote
        (demo_args\<lparr>a_boardName := Some ''Release 2'', a_columnName := Some ''review''\<rparr>) []
     = Some (Inl (ColumnNotFound ''review'' ''Release 2''), [])
   \<and> createTaskDetailed 2 demo_remote
        (demo_args\<lparr>a_boardName := Some ''Release 2'', a_assigneeName := Some ''zed''\<rparr>) []
     = Some (Inl (UserNotFound ''zed''), [])
   \<and> is_resolution_error
        (MultipleBoards [(''Release 2.0'', 10), (''Release'', 12), (''Sprint Release'', 30)])
   \<and> str_includes
        (message (MultipleBoards [(''Release 2.0'', 10), (''Release'', 12), (''Sprint Release'', 30)]))
        ''"Release" (ID: 12)''\<close>
proof -
  let ?amb = "demo_args\<lparr>a_boardName := Some ''rel''\<rparr>"
  let ?nob = "demo_args\<lparr>a_boardName := Some ''zzz''\<rparr>"
  let ?noc = "demo_args\<lparr>a_boardName := Some ''Release 2'', a_columnName := Some ''review''\<rparr>"
  let ?nou = "demo_args\<lparr>a_boardName := Some ''Release 2'', a_assigneeName := Some ''zed''\<rparr>"
  let ?ctx = "\<lparr>ctx_board = (demo_board 10 ''Release 2.0'' 1)\<lparr>b_projectName := Some ''Web''\<rparr>,
              columns = [demo_column 100 ''Backlog'' 10, demo_column 101 ''In Progress'' 10,
                         demo_column 102 ''Done'' 10],
              tasks = []\<rparr>"
  let ?ms = "[(demo_board 10 ''Release 2.0'' 1)\<lparr>b_projectName := Some ''Web''\<rparr>,
              (demo_board 12 ''Release'' 1)\<lparr>b_projectName := Some ''Web''\<rparr>,
              (demo_board 30 ''Sprint Release'' 3)\<lparr>b_projectName := Some ''Lab''\<rparr>]"
  have g: "getBoards 2 demo_remote None = Some (Inr demo_boards)"
    by code_simp
  have amb: "nonempty (a_boardName ?amb) = Some ''rel''
        \<and> getBoards 2 demo_remote None = Some (Inr demo_boards)
        \<and> filter (\<lambda>b. toLowerCase (b_name b) = toLowerCase ''rel'') demo_boards = []
        \<and> 2 \<le> length (filter (\<lambda>b. str_includes (toLowerCase (b_name b)) (toLowerCase ''rel'')) demo_boards)"
    by code_simp
  have listed: "map (\<lambda>m. (b_name m, b_id m))
                  (filter (\<lambda>b. str_includes (toLowerCase (b_name b)) (toLowerCase ''rel'')) demo_boards)
                = [(''Release 2.0'', 10), (''Release'', 12), (''Sprint Release'', 30)]"
    by code_simp
  have 1: "createTaskDetailed 2 demo_remote ?amb []
     = Some (Inl (MultipleBoards [(''Release 2.0'', 10), (''Release'', 12), (''Sprint Release'', 30)]), [])"
    using createTaskDetailed_aborts_before_mutation [of 2 demo_remote ?amb "[]"] amb
    unfolding listed [symmetric] by blast
  have res_err: "is_resolution_error
     (MultipleBoards [(''Release 2.0'', 10), (''Release'', 12), (''Sprint Release'', 30)])"
    by (simp add: is_resolution_error_def)
  have nob: "nonempty (a_boardName ?nob) = Some ''zzz''
        \<and> getBoards 2 demo_remote None = Some (Inr demo_boards)
        \<and> (\<forall>b \<in> set demo_boards. \<not> str_includes (toLowerCase (b_name b)) (toLowerCase ''zzz''))"
    by code_simp
  have 2: "createTaskDetailed 2 demo_remote ?nob [] = Some (Inl (BoardNotFound ''zzz''), [])"
    using createTaskDetailed_aborts_before_mutation [of 2 demo_remote ?nob "[]"] nob by blast
  have noc: "nonempty (a_boardName ?noc) = Some ''Release 2''
        \<and> nonempty (a_columnName ?noc) = Some ''review''
        \<and> getBoardWithContext 2 demo_remote ''Release 2'' = Some (Inr ?ctx)
        \<and> (\<forall>c \<in> set (columns ?ctx). \<not> str_includes (toLowerCase (c_name c)) (toLowerCase ''review''))"
    by code_simp
  have 3: "createTaskDetailed 2 demo_remote ?noc [] = Some (Inl (ColumnNotFound ''review'' ''Release 2''), [])"
    using createTaskDetailed_aborts_before_mutation [of 2 demo_remote ?noc "[]"] noc by blast
  have nou: "resolve_board 2 demo_remote (a_boardName ?nou) (a_columnName ?nou)
               = Some (Inr (Some 10, Some 1, Some 100))
        \<and> nonempty (a_assigneeName ?nou) = Some ''zed'' \<and> findUser demo_remote ''zed'' = Inr None"
    by code_simp
  have 4: "createTaskDetailed 2 demo_remote ?nou [] = Some (Inl (UserNotFound ''zed''), [])"
    using createTaskDetailed_aborts_before_mutation [of 2 demo_remote ?nou "[]"] nou by blast
  have mem: "(demo_board 12 ''Release'' 1)\<lparr>b_projectName := Some ''Web''\<rparr> \<in> set ?ms"
    by simp
  have names: "map (\<lambda>m. (b_name m, b_id m)) ?ms
                 = [(''Release 2.0'', 10), (''Release'', 12), (''Sprint Release'', 30)]"
    by code_simp
  have entry: \<open>''"'' @ b_name ((demo_board 12 ''Release'' 1)\<lparr>b_projectName := Some ''Web''\<rparr>)
                 @ ''" (ID: '' @ show_nat (b_id ((demo_board 12 ''Release'' 1)\<lparr>b_projectName := Some ''Web''\<rparr>))
                 @ '')'' = ''"Release" (ID: 12)''\<close>
    by code_simp
  have 5: \<open>str_includes
        (message (MultipleBoards [(''Release 2.0'', 10), (''Release'', 12), (''Sprint Release'', 30)]))
        ''"Release" (ID: 12)''\<close>
    using createTaskDetailed_aborts_before_mutation [of 2 demo_remote ?amb "[]"] mem
    unfolding names [symmetric] entry [symmetric] by blast
  show ?thesis
    by (intro conjI 1 2 3 4 res_err 5)
qed

section \<open>Boards of all projects (C5)\<close>

text \<open>
  Claim C5: without a project, \<open>getBoards\<close> returns the boards of every project, project by
  project in the order of the projects listing, each board carrying the name of its
  project; a project whose boards request fails contributes no board, and the call does
  not throw for it. The ids of the listed projects are ids of projects, that is, not
  \<open>0\<close>: the source tests \<open>if (projectId)\<close>, and \<open>0\<close> is its value for no project. Two
  levels of calls are enough for the call to return.
\<close>

theorem getBoards_all_projects:
  assumes "getProjects r = Inr ps" and "\<forall>p \<in> set ps. pj_id p \<noteq> 0"
  shows "getBoards (Suc (Suc fuel)) r None =
           Some (Inr (concat (map (\<lambda>p.
                   case boards_resp r (pj_id p) of
                     Inl text \<Rightarrow> []
                   | Inr data \<Rightarrow> map (\<lambda>b. b\<lparr>b_projectName := Some (pj_name p)\<rparr>) (or_empty data)) ps)))"
proof -
  let ?branch = "\<lambda>p. map_option (\<lambda>res.
                        case res of
                          Inr boards \<Rightarrow> map (\<lambda>b. b\<lparr>b_projectName := Some (pj_name p)\<rparr>) boards
                        | Inl e \<Rightarrow> [])
                      (getBoards (Suc fuel) r (Some (pj_id p)))"
  let ?boards = "\<lambda>p. case boards_resp r (pj_id p) of
                     Inl text \<Rightarrow> []
                   | Inr data \<Rightarrow> map (\<lambda>b. b\<lparr>b_projectName := Some (pj_name p)\<rparr>) (or_empty data)"
  have branches: "map ?branch ps = map (\<lambda>p. Some (?boards p)) ps"
  proof (rule map_cong [OF refl])
    fix p assume "p \<in> set ps"
    then have "pj_id p \<noteq> 0" using assms(2) by blast
    from getBoards_scoped [OF this, of fuel r]
    show "?branch p = Some (?boards p)"
      by (simp del: getBoards.simps split: sum.splits)
  qed
  have "getBoards (Suc (Suc fuel)) r None =
          map_option (\<lambda>results. Inr (concat results)) (those (map ?branch ps))"
    using assms(1) by (subst getBoards.simps) (simp del: getBoards.simps)
  also have "\<dots> = map_option (\<lambda>results. Inr (concat results)) (those (map (\<lambda>p. Some (?boards p)) ps))"
    by (simp only: branches)
  also have "\<dots> = Some (Inr (concat (map ?boards ps)))"
    by (simp only: those_map_Some option.map)
  finally show ?thesis .
qed

theorem getBoards_all_projects_witness:
  "getProjects demo_remote
     = Inr [\<lparr>pj_id = 1, pj_name = ''Web''\<rparr>, \<lparr>pj_id = 2, pj_name = ''Ops''\<rparr>,
            \<lparr>pj_id = 3, pj_name = ''Lab''\<rparr>]
   \<and> boards_resp demo_remote 2 = Inl ''500 Internal Server Error: ''
   \<and> getBoards (Suc (Suc 0)) demo_remote None = Some (Inr demo_boards)"
proof -
  let ?ps = "[\<lparr>pj_id = 1, pj_name = ''Web''\<rparr>, \<lparr>pj_id = 2, pj_name = ''Ops''\<rparr>,
            \<lparr>pj_id = 3, pj_name = ''Lab''\<rparr>]"
  have p: "getProjects demo_remote = Inr ?ps"
    by code_simp
  have nz: "\<forall>p \<in> set ?ps. pj_id p \<noteq> 0"
    by simp
  have f: "boards_resp demo_remote 2 = Inl ''500 Internal Server Error: ''"
    by (simp add: demo_remote_def)
  have "concat (map (\<lambda>p.
                   case boards_resp demo_remote (pj_id p) of
                     Inl text \<Rightarrow> []
                   | Inr data \<Rightarrow> map (\<lambda>b. b\<lparr>b_projectName := Some (pj_name p)\<rparr>) (or_empty data)) ?ps)
         = demo_boards"
    by code_simp
  with getBoards_all_projects [OF p nz, of 0] have "getBoards (Suc (Suc 0)) demo_remote None = Some (Inr demo_boards)"
    by simp
  with p f show ?thesis by blast
qed

section \<open>Subtasks are created in order (C6)\<close>

text \<open>
  Claim C6: when the board and the assignee are resolved, the creation of the main task
  succeeds, and the creation of every subtask succeeds on the log of all requests issued
  before it, \<open>createTaskDetailed\<close> returns, and what it returns is the task the remote
  answered to the first creation request, alone. The requests it has issued are that
  request followed by one creation request for each subtask title, in the order of the
  titles and one after the other. Each of them carries its title, the id of the main task
  as \<open>parentId\<close>, and the \<open>projectId\<close>, \<open>boardId\<close>, \<open>boardColumnId\<close>, assignees and
  locations of the main request.
\<close>

theorem createTaskDetailed_creates_subtasks_in_order:
  assumes rb: "resolve_board fuel r (a_boardName a) (a_columnName a) = Some (Inr (bid, pid, cid))"
    and ra: "resolve_assignee r (a_assigneeName a) = Inr aid"
    and main: "create_resp r log (task_payload (main_data a bid pid cid aid)) = Inr mainTask"
    and subs: "\<forall>i<length (a_subtasks a). \<exists>t.
           create_resp r
             (log @ CreateTask (task_payload (main_data a bid pid cid aid))
                  # subtask_requests (subtask_data (t_id mainTask) bid pid cid aid) (take i (a_subtasks a)))
             (task_payload (subtask_data (t_id mainTask) bid pid cid aid (a_subtasks a ! i))) = Inr t"
  shows "\<exists>main subs.
           createTaskDetailed fuel r a log
             = Some (Inr mainTask, log @ CreateTask main # map CreateTask subs)
         \<and> main = task_payload (main_data a bid pid cid aid)
         \<and> d_title (p_data main) = a_title a
         \<and> map (\<lambda>s. d_title (p_data s)) subs = a_subtasks a
         \<and> (\<forall>s \<in> set subs.
                d_parentId (p_data s) = t_id mainTask
              \<and> d_projectId (p_data s) = d_projectId (p_data main)
              \<and> d_boardId (p_data s) = d_boardId (p_data main)
              \<and> d_boardColumnId (p_data s) = d_boardColumnId (p_data main)
              \<and> d_assignees (p_data s) = d_assignees (p_data main)
              \<and> p_locations s = p_locations main)"
proof -
  let ?main = "task_payload (main_data a bid pid cid aid)"
  let ?mk = "subtask_data (t_id mainTask) bid pid cid aid"
  let ?subs = "map (\<lambda>t. task_payload (?mk t)) (a_subtasks a)"
  have "\<forall>i<length (a_subtasks a). \<exists>t.
           create_resp r ((log @ [CreateTask ?main]) @ subtask_requests ?mk (take i (a_subtasks a)))
             (task_payload (?mk (a_subtasks a ! i))) = Inr t"
    using subs by simp
  then have loop: "create_subtasks r ?mk (a_subtasks a) (log @ [CreateTask ?main])
                     = (Inr (), (log @ [CreateTask ?main]) @ subtask_requests ?mk (a_subtasks a))"
    by (rule create_subtasks_succeeds)
  have 1: "createTaskDetailed fuel r a log
             = Some (Inr mainTask, log @ CreateTask ?main # map CreateTask ?subs)"
    using rb ra main loop
    by (simp add: createTaskDetailed_def createTask_eq request_def subtask_requests_def comp_def)
  have 2: "d_title (p_data ?main) = a_title a"
    by (simp add: task_payload_def main_data_def)
  have 3: "map (\<lambda>s. d_title (p_data s)) ?subs = a_subtasks a"
    by (simp add: task_payload_def subtask_data_def comp_def)
  have 4: "\<forall>s \<in> set ?subs.
                d_parentId (p_data s) = t_id mainTask
              \<and> d_projectId (p_data s) = d_projectId (p_data ?main)
              \<and> d_boardId (p_data s) = d_boardId (p_data ?main)
              \<and> d_boardColumnId (p_data s) = d_boardColumnId (p_data ?main)
              \<and> d_assignees (p_data s) = d_assignees (p_data ?main)
              \<and> p_locations s = p_locations ?main"
    by (simp add: task_payload_def subtask_data_def main_data_def split: option.splits)
  from 1 2 3 4 show ?thesis by blast
qed

theorem createTaskDetailed_creates_subtasks_in_order_witness:
  "resolve_board 2 demo_remote (a_boardName release_args) (a_columnName release_args)
     = Some (Inr (Some 10, Some 1, Some 100))
   \<and> create_resp demo_remote [] release_main = Inr (demo_created [] release_main)
   \<and> (\<exists>main subs.
         createTaskDetailed 2 demo_remote release_args []
           = Some (Inr (demo_created [] release_main), [] @ CreateTask main # map CreateTask subs)
       \<and> main = release_main
       \<and> d_title (p_data main) = a_title release_args
       \<and> map (\<lambda>s. d_title (p_data s)) subs = a_subtasks release_args
       \<and> (\<forall>s \<in> set subs.
              d_parentId (p_data s) = t_id (demo_created [] release_main)
            \<and> d_projectId (p_data s) = d_projectId (p_data main)
            \<and> d_boardId (p_data s) = d_boardId (p_data main)
            \<and> d_boardColumnId (p_data s) = d_boardColumnId (p_data main)
            \<and> d_assignees (p_data s) = d_assignees (p_data main)
            \<and> p_locations s = p_locations main))"
proof -
  let ?main = "task_payload (main_data release_args (Some 10) (Some 1) (Some 100) None)"
  let ?mainTask = "demo_created [] release_main"
  let ?mk = "subtask_data (t_id ?mainTask) (Some 10) (Some 1) (Some 100) None"
  have rm: "release_main = ?main"
    by (simp add: release_main_def)
  have rb: "resolve_board 2 demo_remote (a_boardName release_args) (a_columnName release_args)
              = Some (Inr (Some 10, Some 1, Some 100))"
    by code_simp
  have ra: "resolve_assignee demo_remote (a_assigneeName release_args) = Inr None"
    by code_simp
  have main: "create_resp demo_remote [] ?main = Inr ?mainTask"
    by code_simp
  have len: "length (a_subtasks release_args) = Suc (Suc 0)"
    by code_simp
  have s0: "create_resp demo_remote
             ([] @ CreateTask ?main # subtask_requests ?mk (take 0 (a_subtasks release_args)))
             (task_payload (?mk (a_subtasks release_args ! 0)))
           = Inr (demo_created [CreateTask release_main] (release_sub ''A''))"
    by code_simp
  have s1: "create_resp demo_remote
             ([] @ CreateTask ?main # subtask_requests ?mk (take (Suc 0) (a_subtasks release_args)))
             (task_payload (?mk (a_subtasks release_args ! Suc 0)))
           = Inr (demo_created [CreateTask release_main, CreateTask (release_sub ''A'')]
                    (release_sub ''B''))"
    by code_simp
  have subs: "\<forall>i<length (a_subtasks release_args). \<exists>t.
           create_resp demo_remote
             ([] @ CreateTask ?main # subtask_requests ?mk (take i (a_subtasks release_args)))
             (task_payload (?mk (a_subtasks release_args ! i))) = Inr t"
    unfolding len using s0 s1 by (auto simp: less_Suc_eq)
  have main': "create_resp demo_remote [] release_main = Inr ?mainTask"
    using main unfolding rm [symmetric] .
  from createTaskDetailed_creates_subtasks_in_order [OF rb ra main subs]
  have "\<exists>main subs.
         createTaskDetailed 2 demo_remote release_args []
           = Some (Inr ?mainTask, [] @ CreateTask main # map CreateTask subs)
       \<and> main = release_main
       \<and> d_title (p_data main) = a_title release_args
       \<and> map (\<lambda>s. d_title (p_data s)) subs = a_subtasks release_args
       \<and> (\<forall>s \<in> set subs.
              d_parentId (p_data s) = t_id ?mainTask
            \<and> d_projectId (p_data s) = d_projectId (p_data main)
            \<and> d_boardId (p_data s) = d_boardId (p_data main)
            \<and> d_boardColumnId (p_data s) = d_boardColumnId (p_data main)
            \<and> d_assignees (p_data s) = d_assignees (p_data main)
            \<and> p_locations s = p_locations main)"
    unfolding rm [symmetric] .
  with rb main' show ?thesis
    by (intro conjI)
qed

text \<open>
  Conversely, whenever \<open>createTaskDetailed\<close> returns a task, the requests it has issued
  have this form, and each was answered with success before the next was issued.
\<close>

lemma createTaskDetailed_returned_requests:
  assumes "createTaskDetailed fuel r a log = Some (Inr mainTask, log')"
  shows "\<exists>main subs.
           log' = log @ CreateTask main # map CreateTask subs
         \<and> create_resp r log main = Inr mainTask
         \<and> d_title (p_data main) = a_title a
         \<and> map (\<lambda>s. d_title (p_data s)) subs = a_subtasks a
         \<and> (\<forall>s \<in> set subs.
                d_parentId (p_data s) = t_id mainTask
              \<and> d_projectId (p_data s) = d_projectId (p_data main)
              \<and> d_boardId (p_data s) = d_boardId (p_data main)
              \<and> d_boardColumnId (p_data s) = d_boardColumnId (p_data main)
              \<and> d_assignees (p_data s) = d_assignees (p_data main)
              \<and> p_locations s = p_locations main)
         \<and> (\<forall>i<length subs. \<exists>t.
                create_resp r (log @ CreateTask main # map CreateTask (take i subs)) (subs ! i) = Inr t)"
proof -
  from assms obtain bid pid cid aid log1 u where
    main: "createTask r (main_data a bid pid cid aid) log = (Inr mainTask, log1)"
    and subs: "create_subtasks r (subtask_data (t_id mainTask) bid pid cid aid) (a_subtasks a) log1
                 = (Inr u, log')"
    by (auto simp: createTaskDetailed_def split: option.splits sum.splits prod.splits)
  let ?main = "task_payload (main_data a bid pid cid aid)"
  let ?mk = "subtask_data (t_id mainTask) bid pid cid aid"
  let ?subs = "map (\<lambda>t. task_payload (?mk t)) (a_subtasks a)"
  from main have resp: "create_resp r log ?main = Inr mainTask" and log1: "log1 = log @ [CreateTask ?main]"
    by (auto simp: createTask_eq request_def split: sum.splits)
  from create_subtasks_ok [OF subs] have
    l: "log' = log1 @ subtask_requests ?mk (a_subtasks a)"
    and ok: "\<forall>i<length (a_subtasks a). \<exists>t.
               create_resp r (log1 @ subtask_requests ?mk (take i (a_subtasks a)))
                 (task_payload (?mk (a_subtasks a ! i))) = Inr t"
    by blast+
  have 1: "log' = log @ CreateTask ?main # map CreateTask ?subs"
    using l log1 by (simp add: subtask_requests_def comp_def)
  have 2: "d_title (p_data ?main) = a_title a"
    by (simp add: task_payload_def main_data_def)
  have 3: "map (\<lambda>s. d_title (p_data s)) ?subs = a_subtasks a"
    by (simp add: task_payload_def subtask_data_def comp_def)
  have 4: "\<forall>s \<in> set ?subs.
                d_parentId (p_data s) = t_id mainTask
              \<and> d_projectId (p_data s) = d_projectId (p_data ?main)
              \<and> d_boardId (p_data s) = d_boardId (p_data ?main)
              \<and> d_boardColumnId (p_data s) = d_boardColumnId (p_data ?main)
              \<and> d_assignees (p_data s) = d_assignees (p_data ?main)
              \<and> p_locations s = p_locations ?main"
    by (simp add: task_payload_def subtask_data_def main_data_def split: option.splits)
  have 5: "\<forall>i<length ?subs. \<exists>t.
                create_resp r (log @ CreateTask ?main # map CreateTask (take i ?subs)) (?subs ! i) = Inr t"
    using ok log1 by (simp add: subtask_requests_def take_map comp_def)
  from 1 resp 2 3 4 5 show ?thesis by blast
qed

section \<open>Moving a task by column name (C7)\<close>

text \<open>
  Claim C7: \<open>moveTaskToColumn\<close> looks for the column among the columns that the remote
  lists for the board of the task, and nowhere else. A task without a board makes it fail
  without a move request. With a board, the move request goes to the first listed column
  of that board whose name contains the query, and if there is none the operation fails
  without a move request. What the remote lists for any other board does not change the
  outcome, and whenever a move request is issued it names a column listed for the board
  of the task.
\<close>

theorem moveTaskToColumn_within_board:
  assumes "getTask r taskId = Inr (Some task)"
  shows "(nonzero (t_boardId task) = None
            \<longrightarrow> moveTaskToColumn r taskId q log = (Inl TaskNotOnBoard, log))
       \<and> (\<forall>b cols. nonzero (t_boardId task) = Some b \<and> getColumns r b = Inr cols
            \<longrightarrow> (case filter (\<lambda>c. str_includes (toLowerCase (c_name c)) (toLowerCase q)) cols of
                   [] \<Rightarrow> moveTaskToColumn r taskId q log = (Inl (MoveColumnNotFound q), log)
                 | col # others \<Rightarrow>
                     moveTaskToColumn r taskId q log
                       = (request (move_resp r log taskId (c_id col)),
                          log @ [MoveTask taskId (c_id col)])))
       \<and> (\<forall>b other answer. nonzero (t_boardId task) = Some b \<and> other \<noteq> b
            \<longrightarrow> moveTaskToColumn (r\<lparr>columns_resp := (columns_resp r)(other := answer)\<rparr>) taskId q log
                  = moveTaskToColumn r taskId q log)
       \<and> (\<forall>res log'. moveTaskToColumn r taskId q log = (res, log') \<and> log' \<noteq> log
            \<longrightarrow> (\<exists>b cols col. nonzero (t_boardId task) = Some b \<and> getColumns r b = Inr cols
                    \<and> col \<in> set cols
                    \<and> str_includes (toLowerCase (c_name col)) (toLowerCase q)
                    \<and> log' = log @ [MoveTask taskId (c_id col)]))"
proof (intro conjI allI impI)
  assume "nonzero (t_boardId task) = None"
  then show "moveTaskToColumn r taskId q log = (Inl TaskNotOnBoard, log)"
    using assms by (simp add: moveTaskToColumn_def)
next
  fix b cols
  assume "nonzero (t_boardId task) = Some b \<and> getColumns r b = Inr cols"
  then show "case filter (\<lambda>c. str_includes (toLowerCase (c_name c)) (toLowerCase q)) cols of
                   [] \<Rightarrow> moveTaskToColumn r taskId q log = (Inl (MoveColumnNotFound q), log)
                 | col # others \<Rightarrow>
                     moveTaskToColumn r taskId q log
                       = (request (move_resp r log taskId (c_id col)),
                          log @ [MoveTask taskId (c_id col)])"
    using assms
    by (simp add: moveTaskToColumn_def findColumn_def find_filter moveTask_def split: list.splits)
next
  fix b other answer
  assume "nonzero (t_boardId task) = Some b \<and> other \<noteq> b"
  then show "moveTaskToColumn (r\<lparr>columns_resp := (columns_resp r)(other := answer)\<rparr>) taskId q log
                  = moveTaskToColumn r taskId q log"
    using assms
    by (simp add: moveTaskToColumn_def getTask_def findColumn_def getColumns_def moveTask_def
             split: sum.splits option.splits)
next
  fix res log'
  assume "moveTaskToColumn r taskId q log = (res, log') \<and> log' \<noteq> log"
  then show "\<exists>b cols col. nonzero (t_boardId task) = Some b \<and> getColumns r b = Inr cols
                    \<and> col \<in> set cols
                    \<and> str_includes (toLowerCase (c_name col)) (toLowerCase q)
                    \<and> log' = log @ [MoveTask taskId (c_id col)]"
    using assms
    by (auto simp: moveTaskToColumn_def findColumn_def moveTask_def Let_def
             split: option.splits sum.splits dest: find_Some_member)
qed

theorem moveTaskToColumn_within_board_witness:
  "getTask demo_remote 500 = Inr (Some (demo_task 500 ''Write notes'' (Some 11)))
   \<and> getColumns demo_remote 11 = Inr [demo_column 110 ''Done'' 11]
   \<and> moveTaskToColumn demo_remote 500 ''done'' [] = (Inr ''{}'', [MoveTask 500 110])
   \<and> moveTaskToColumn demo_remote 501 ''done'' [] = (Inl TaskNotOnBoard, [])
   \<and> moveTaskToColumn demo_remote 502 ''done'' [] = (Inl (MoveColumnNotFound ''done''), [])
   \<and> moveTaskToColumn
        (demo_remote\<lparr>columns_resp := (columns_resp demo_remote)(10 := Inr (Some []))\<rparr>) 500 ''done'' []
       = moveTaskToColumn demo_remote 500 ''done'' []
   \<and> (\<exists>b cols col. nonzero (t_boardId (demo_task 500 ''Write notes'' (Some 11))) = Some b
          \<and> getColumns demo_remote b = Inr cols \<and> col \<in> set cols
          \<and> str_includes (toLowerCase (c_name col)) (toLowerCase ''done'')
          \<and> [MoveTask 500 110] = [] @ [MoveTask 500 (c_id col)])"
proof -
  let ?t = "demo_task 500 ''Write notes'' (Some 11)"
  have t: "getTask demo_remote 500 = Inr (Some ?t)" by code_simp
  have b: "nonzero (t_boardId ?t) = Some 11 \<and> getColumns demo_remote 11 = Inr [demo_column 110 ''Done'' 11]"
    by code_simp
  have m: "filter (\<lambda>c. str_includes (toLowerCase (c_name c)) (toLowerCase ''done''))
             [demo_column 110 ''Done'' 11] = demo_column 110 ''Done'' 11 # []"
    by code_simp
  have r: "request (move_resp demo_remote [] 500 110) = Inr ''{}''"
    by code_simp
  have i: "c_id (demo_column 110 ''Done'' 11) = 110"
    by (simp add: demo_column_def)
  from moveTaskToColumn_within_board [OF t, of "''done''" "[]"] b
  have "case filter (\<lambda>c. str_includes (toLowerCase (c_name c)) (toLowerCase ''done''))
               [demo_column 110 ''Done'' 11] of
          [] \<Rightarrow> moveTaskToColumn demo_remote 500 ''done'' [] = (Inl (MoveColumnNotFound ''done''), [])
        | col # others \<Rightarrow>
            moveTaskToColumn demo_remote 500 ''done'' []
              = (request (move_resp demo_remote [] 500 (c_id col)), [] @ [MoveTask 500 (c_id col)])"
    by blast
  then have 1: "moveTaskToColumn demo_remote 500 ''done'' [] = (Inr ''{}'', [MoveTask 500 110])"
    unfolding m list.case i r by simp
  have t1: "getTask demo_remote 501 = Inr (Some (demo_task 501 ''Loose'' None))" by code_simp
  have nb: "nonzero (t_boardId (demo_task 501 ''Loose'' None)) = None" by code_simp
  have 2: "moveTaskToColumn demo_remote 501 ''done'' [] = (Inl TaskNotOnBoard, [])"
    using moveTaskToColumn_within_board [OF t1, of "''done''" "[]"] nb by blast
  have t2: "getTask demo_remote 502 = Inr (Some (demo_task 502 ''Stuck'' (Some 32)))" by code_simp
  have b2: "nonzero (t_boardId (demo_task 502 ''Stuck'' (Some 32))) = Some 32
              \<and> getColumns demo_remote 32 = Inr []"
    by code_simp
  from moveTaskToColumn_within_board [OF t2, of "''done''" "[]"] b2
  have "case filter (\<lambda>c. str_includes (toLowerCase (c_name c)) (toLowerCase ''done''))
               ([] :: column list) of
          [] \<Rightarrow> moveTaskToColumn demo_remote 502 ''done'' [] = (Inl (MoveColumnNotFound ''done''), [])
        | col # others \<Rightarrow>
            moveTaskToColumn demo_remote 502 ''done'' []
              = (request (move_resp demo_remote [] 502 (c_id col)), [] @ [MoveTask 502 (c_id col)])"
    by blast
  then have 3: "moveTaskToColumn demo_remote 502 ''done'' [] = (Inl (MoveColumnNotFound ''done''), [])"
    by simp
  have other: "nonzero (t_boardId ?t) = Some 11 \<and> (10::nat) \<noteq> 11"
    by code_simp
  have 4: "moveTaskToColumn
        (demo_remote\<lparr>columns_resp := (columns_resp demo_remote)(10 := Inr (Some []))\<rparr>) 500 ''done'' []
       = moveTaskToColumn demo_remote 500 ''done'' []"
    using moveTaskToColumn_within_board [OF t, of "''done''" "[]"] other by blast
  have grew: "moveTaskToColumn demo_remote 500 ''done'' [] = (Inr ''{}'', [MoveTask 500 110])
                \<and> [MoveTask 500 110] \<noteq> []"
    using 1 by simp
  have 5: "\<exists>b cols col. nonzero (t_boardId ?t) = Some b
          \<and> getColumns demo_remote b = Inr cols \<and> col \<in> set cols
          \<and> str_includes (toLowerCase (c_name col)) (toLowerCase ''done'')
          \<and> [MoveTask 500 110] = [] @ [MoveTask 500 (c_id col)]"
    using moveTaskToColumn_within_board [OF t, of "''done''" "[]"] grew by blast
  from b have cols: "getColumns demo_remote 11 = Inr [demo_column 110 ''Done'' 11]" by blast
  show ?thesis
    by (intro conjI t cols 1 2 3 4 5)
qed

section \<open>The default column (C8)\<close>

text \<open>
  Claim C8: with a board name and no column name, once the board is resolved and the
  assignee (if any) too, the creation request for the main task is issued with the id of
  the first column of the board, in the order in which the remote listed the columns; if
  the board has no column, the request carries no column, neither at top level nor in its
  location.
\<close>

theorem createTaskDetailed_default_column:
  assumes bn: "nonempty (a_boardName a) = Some bn"
    and cn: "nonempty (a_columnName a) = None"
    and ctx: "getBoardWithContext fuel r bn = Some (Inr board)"
    and ra: "resolve_assignee r (a_assigneeName a) = Inr aid"
  shows "getColumns r (b_id (ctx_board board)) = Inr (columns board)
       \<and> (\<exists>res main more.
             createTaskDetailed fuel r a log = Some (res, log @ CreateTask main # more)
           \<and> d_boardId (p_data main) = Some (b_id (ctx_board board))
           \<and> (case columns board of
                 [] \<Rightarrow> d_boardColumnId (p_data main) = None
                        \<and> (\<forall>loc \<in> set (or_empty (p_locations main)). l_boardColumnId loc = None)
               | col # others \<Rightarrow> d_boardColumnId (p_data main) = Some (c_id col)
                        \<and> (\<forall>loc \<in> set (or_empty (p_locations main)).
                              l_boardColumnId loc = Some (c_id col))))"
proof -
  let ?cid = "case columns board of [] \<Rightarrow> None | col # others \<Rightarrow> Some (c_id col)"
  let ?main = "task_payload (main_data a (Some (b_id (ctx_board board)))
                  (b_projectId (ctx_board board)) ?cid aid)"
  have rb: "resolve_board fuel r (a_boardName a) (a_columnName a)
              = Some (Inr (Some (b_id (ctx_board board)), b_projectId (ctx_board board), ?cid))"
    using bn cn ctx by (simp add: resolve_board_def)
  from createTaskDetailed_after_resolution [OF rb ra, of log] obtain res more where
    run: "createTaskDetailed fuel r a log = Some (res, log @ CreateTask ?main # more)"
    by blast
  have b: "d_boardId (p_data ?main) = Some (b_id (ctx_board board))"
    by (simp add: task_payload_def main_data_def)
  have c: "case columns board of
                 [] \<Rightarrow> d_boardColumnId (p_data ?main) = None
                        \<and> (\<forall>loc \<in> set (or_empty (p_locations ?main)). l_boardColumnId loc = None)
               | col # others \<Rightarrow> d_boardColumnId (p_data ?main) = Some (c_id col)
                        \<and> (\<forall>loc \<in> set (or_empty (p_locations ?main)).
                              l_boardColumnId loc = Some (c_id col))"
    by (simp add: task_payload_def main_data_def or_empty_def split: list.splits option.splits)
  from run b c getBoardWithContext_result(2) [OF ctx] show ?thesis
    by blast
qed

theorem createTaskDetailed_default_column_witness:
  "getBoardWithContext 2 demo_remote ''Release 2'' = Some (Inr release_context)
   \<and> (\<exists>res main more.
         createTaskDetailed 2 demo_remote (demo_args\<lparr>a_boardName := Some ''Release 2''\<rparr>) []
           = Some (res, [] @ CreateTask main # more)
       \<and> d_boardColumnId (p_data main) = Some 100)
   \<and> getBoardWithContext 2 demo_remote ''Empty'' = Some (Inr empty_context)
   \<and> (\<exists>res main more.
         createTaskDetailed 2 demo_remote (demo_args\<lparr>a_boardName := Some ''Empty''\<rparr>) []
           = Some (res, [] @ CreateTask main # more)
       \<and> d_boardColumnId (p_data main) = None)"
proof -
  let ?a = "demo_args\<lparr>a_boardName := Some ''Release 2''\<rparr>"
  let ?e = "demo_args\<lparr>a_boardName := Some ''Empty''\<rparr>"
  have bn: "nonempty (a_boardName ?a) = Some ''Release 2''" by code_simp
  have cn: "nonempty (a_columnName ?a) = None" by code_simp
  have ctx: "getBoardWithContext 2 demo_remote ''Release 2'' = Some (Inr release_context)" by code_simp
  have ra: "resolve_assignee demo_remote (a_assigneeName ?a) = Inr None" by code_simp
  have cols: "columns release_context = demo_column 100 ''Backlog'' 10
                # [demo_column 101 ''In Progress'' 10, demo_column 102 ''Done'' 10]"
    by (simp add: release_context_def)
  have cid: "c_id (demo_column 100 ''Backlog'' 10) = 100"
    by (simp add: demo_column_def)
  from createTaskDetailed_default_column [OF bn cn ctx ra, of "[]"]
  have 1: "\<exists>res main more.
         createTaskDetailed 2 demo_remote ?a [] = Some (res, [] @ CreateTask main # more)
       \<and> d_boardColumnId (p_data main) = Some 100"
    unfolding cols list.case cid by blast
  have bn': "nonempty (a_boardName ?e) = Some ''Empty''" by code_simp
  have cn': "nonempty (a_columnName ?e) = None" by code_simp
  have ctx': "getBoardWithContext 2 demo_remote ''Empty'' = Some (Inr empty_context)" by code_simp
  have ra': "resolve_assignee demo_remote (a_assigneeName ?e) = Inr None" by code_simp
  have cols': "columns empty_context = []"
    by (simp add: empty_context_def)
  from createTaskDetailed_default_column [OF bn' cn' ctx' ra', of "[]"]
  have 2: "\<exists>res main more.
         createTaskDetailed 2 demo_remote ?e [] = Some (res, [] @ CreateTask main # more)
       \<and> d_boardColumnId (p_data main) = None"
    unfolding cols' list.case by blast
  show ?thesis
    by (intro conjI ctx 1 ctx' 2)
qed

section \<open>Duplicate exact matches (C9)\<close>

text \<open>
  Claim C9: when two or more boards have a name equal to the query in lower case,
  \<open>findBoard\<close> returns the first of them alone, and \<open>getBoardWithContext\<close> does not
  report several boards.
\<close>

theorem findBoard_duplicate_exact:
  assumes "getBoards fuel r None = Some (Inr C)"
    and "filter (\<lambda>b. toLowerCase (b_name b) = toLowerCase q) C = b # b' # rest"
  shows "findBoard fuel r q = Some (Inr [b])
       \<and> (\<forall>ms. getBoardWithContext fuel r q \<noteq> Some (Inl (MultipleBoards ms)))"
proof -
  have fb: "findBoard fuel r q = Some (Inr [b])"
    using assms by (simp add: findBoard_def find_filter)
  then have "\<forall>ms. getBoardWithContext fuel r q \<noteq> Some (Inl (MultipleBoards ms))"
    by (auto simp: getBoardWithContext_def split: sum.splits
             dest: getColumns_error getTasks_error)
  with fb show ?thesis by blast
qed

theorem findBoard_duplicate_exact_witness:
  "filter (\<lambda>b. toLowerCase (b_name b) = toLowerCase ''sprint'') demo_boards
     = [(demo_board 11 ''Sprint'' 1)\<lparr>b_projectName := Some ''Web''\<rparr>,
        (demo_board 31 ''SPRINT'' 3)\<lparr>b_projectName := Some ''Lab''\<rparr>]
   \<and> findBoard 2 demo_remote ''sprint''
       = Some (Inr [(demo_board 11 ''Sprint'' 1)\<lparr>b_projectName := Some ''Web''\<rparr>])
   \<and> getBoardWithContext 2 demo_remote ''sprint''
       \<noteq> Some (Inl (MultipleBoards [(''Sprint'', 11), (''SPRINT'', 31)]))"
proof -
  have g: "getBoards 2 demo_remote None = Some (Inr demo_boards)"
    by code_simp
  have two: "filter (\<lambda>b. toLowerCase (b_name b) = toLowerCase ''sprint'') demo_boards
     = [(demo_board 11 ''Sprint'' 1)\<lparr>b_projectName := Some ''Web''\<rparr>,
        (demo_board 31 ''SPRINT'' 3)\<lparr>b_projectName := Some ''Lab''\<rparr>]"
    by code_simp
  from findBoard_duplicate_exact [OF g two] two show ?thesis
    by blast
qed

section \<open>The payload of a task creation (C10)\<close>

text \<open>
  Claim C10: \<open>createTask\<close> sends one creation request whose payload holds the data as
  given. When the data contains a board id (a number other than \<open>0\<close>, which is what the
  test \<open>if (data.boardId)\<close> of the source accepts), the payload has exactly one location,
  with the project id of the data or \<open>0\<close> without one, the board id and the column id of
  the data; otherwise it has no locations. The type of the payload is \<open>action\<close> unless the
  data gives a type.
\<close>

theorem createTask_payload:
  "\<exists>p. createTask r d log = (request (create_resp r log p), log @ [CreateTask p])
       \<and> p_data p = d
       \<and> (\<forall>b. nonzero (d_boardId d) = Some b
            \<longrightarrow> p_locations p =
                  Some [\<lparr>l_projectId = (case d_projectId d of None \<Rightarrow> 0 | Some projectId \<Rightarrow> projectId),
                         l_boardId = b,
                         l_boardColumnId = d_boardColumnId d\<rparr>])
       \<and> (nonzero (d_boardId d) = None \<longrightarrow> p_locations p = None)
       \<and> (d_type d = None \<longrightarrow> p_type p = ''action'')
       \<and> (\<forall>t. d_type d = Some t \<longrightarrow> p_type p = t)"
  by (rule exI [of _ "task_payload d"]) (simp add: createTask_eq task_payload_def)

theorem createTask_payload_witness:
  "nonzero (d_boardId (main_data release_args (Some 10) (Some 1) (Some 100) None)) = Some 10
   \<and> (\<exists>p. createTask demo_remote (main_data release_args (Some 10) (Some 1) (Some 100) None) []
             = (request (create_resp demo_remote [] p), [] @ [CreateTask p])
          \<and> p_locations p = Some [\<lparr>l_projectId = 1, l_boardId = 10, l_boardColumnId = Some 100\<rparr>]
          \<and> p_type p = ''action'')
   \<and> (\<exists>p. createTask demo_remote
               ((main_data release_args (Some 10) None None None)\<lparr>d_type := Some ''meet''\<rparr>) []
             = (request (create_resp demo_remote [] p), [] @ [CreateTask p])
          \<and> p_locations p = Some [\<lparr>l_projectId = 0, l_boardId = 10, l_boardColumnId = None\<rparr>]
          \<and> p_type p = ''meet'')
   \<and> (\<exists>p. createTask demo_remote (main_data demo_args None None None None) []
             = (request (create_resp demo_remote [] p), [] @ [CreateTask p])
          \<and> p_locations p = None)"
proof -
  let ?d = "main_data release_args (Some 10) (Some 1) (Some 100) None"
  let ?m = "(main_data release_args (Some 10) None None None)\<lparr>d_type := Some ''meet''\<rparr>"
  let ?n = "main_data demo_args None None None None"
  have b: "nonzero (d_boardId ?d) = Some 10" by code_simp
  have f: "(case d_projectId ?d of None \<Rightarrow> 0 | Some projectId \<Rightarrow> projectId) = 1
           \<and> d_boardColumnId ?d = Some 100 \<and> d_type ?d = None"
    by code_simp
  from createTask_payload [of demo_remote ?d "[]"] b f
  have 1: "\<exists>p. createTask demo_remote ?d [] = (request (create_resp demo_remote [] p), [] @ [CreateTask p])
          \<and> p_locations p = Some [\<lparr>l_projectId = 1, l_boardId = 10, l_boardColumnId = Some 100\<rparr>]
          \<and> p_type p = ''action''"
    by auto
  have b': "nonzero (d_boardId ?m) = Some 10" by code_simp
  have f': "(case d_projectId ?m of None \<Rightarrow> 0 | Some projectId \<Rightarrow> projectId) = 0
           \<and> d_boardColumnId ?m = None \<and> d_type ?m = Some ''meet''"
    by code_simp
  from createTask_payload [of demo_remote ?m "[]"] b' f'
  have 2: "\<exists>p. createTask demo_remote ?m [] = (request (create_resp demo_remote [] p), [] @ [CreateTask p])
          \<and> p_locations p = Some [\<lparr>l_projectId = 0, l_boardId = 10, l_boardColumnId = None\<rparr>]
          \<and> p_type p = ''meet''"
    by auto
  have n: "nonzero (d_boardId ?n) = None" by code_simp
  from createTask_payload [of demo_remote ?n "[]"] n
  have 3: "\<exists>p. createTask demo_remote ?n [] = (request (create_resp demo_remote [] p), [] @ [CreateTask p])
          \<and> p_locations p = None"
    by auto
  show ?thesis
    by (intro conjI b 1 2 3)
qed

end
